theory Spec2Isabelle
  imports Main "HOL-Library.Char_ord" "HOL-Library.List_Lexorder" "HOL-Library.Product_Lexorder"
begin

section \<open>The store: catalog, on-hand ledger and event log\<close>

text \<open>
  The server (\<^verbatim>\<open>src/server/index.js\<close>) keeps all of its state in three tables of a
  relational store: \<^verbatim>\<open>items\<close>, \<^verbatim>\<open>inventory_onhand\<close> and \<^verbatim>\<open>inventory_events\<close>.
  Every handler is a function from the store and the request to a reply and the store it
  leaves behind. A handler that ends in \<^verbatim>\<open>ROLLBACK\<close> returns the store it was given; one
  that ends in \<^verbatim>\<open>COMMIT\<close> returns the store with its statements applied. Requests are run
  one after the other, so the row lock of \<^verbatim>\<open>SELECT ... FOR UPDATE\<close> is a plain read here.

  A handler's \<^verbatim>\<open>catch\<close> branch (rollback, 500 \<^verbatim>\<open>SERVER_ERROR\<close>) is reached when a statement
  throws. The statements throw on what the request itself carries: a text parameter that
  contains U+0000, which the engine refuses, and a text it cannot read as a timestamp.
  Failures that do not come from the request (a lost connection, an exhausted pool) are
  outside the model.

  \<^verbatim>\<open>index.js\<close> holds two revisions of the server. The handlers below are those of the
  first one (lines 1 to 285), whose statements all address the same columns; the second
  revision's confirm handler still looks the item up by the columns of an earlier catalog
  layout (\<^verbatim>\<open>barcode\<close>, \<^verbatim>\<open>name\<close>), which the catalog write of neither revision fills.
\<close>

type_synonym ident = nat
type_synonym timestamp = string
type_synonym numeric = string

text \<open>
  Modelled from the spec: the table declarations are not part of the source. An item's
  identifier is opaque and assigned by the store (here the next value of a counter); the
  on-hand quantity is an integer with no upper bound; a numeric value is opaque and
  stands for the text the engine renders it as; a timestamp is a value of the engine,
  which reads it from text and prints it as text by conversions of its own.

  Strings are the UTF-8 bytes of the text, so U+0000 is the byte 0 and a character
  outside ASCII is two to four bytes.
\<close>

record item =
  item_id :: ident
  InventoryDate :: "timestamp option"
  ScannedCode :: string
  Brand :: "string option"
  Model :: string
  Size :: "string option"
  Color :: "string option"
  Notes :: "string option"
  SoldOrder :: "string option"
  PurchasedFrom :: "string option"
  PaintThickness :: "numeric option"
  Price :: "numeric option"
  Qty :: "numeric option"

datatype action = ActAdd | ActRemove

record event =
  ev_item_id :: ident
  ev_action :: action
  ev_qty :: int
  ev_order_id :: "string option"
  ev_where_bought_from :: "string option"
  ev_date_subtracted :: "timestamp option"

text \<open>
  The conversions of the engine that the statements use. They depend on the engine's
  version, on the column types and on the session's settings, none of which the source
  fixes, so the store carries them and every handler is stated for whatever they are:
  \<^item> \<open>timestamptz_in\<close> is the cast \<^verbatim>\<open>$4::timestamptz\<close>, \<open>None\<close> where the engine refuses the text;
  \<^item> \<open>inventory_date_in\<close> reads the text parameter stored into \<^verbatim>\<open>"InventoryDate"\<close>;
  \<^item> \<open>inventory_date_out\<close> is \<^verbatim>\<open>CAST("InventoryDate" AS TEXT)\<close>.
\<close>

record engine =
  timestamptz_in :: "string \<Rightarrow> timestamp option"
  inventory_date_in :: "string \<Rightarrow> timestamp option"
  inventory_date_out :: "timestamp \<Rightarrow> string"

record db =
  items :: "item list"
  inventory_onhand :: "ident \<rightharpoonup> int"
  inventory_events :: "event list"
  next_item_id :: ident
  db_engine :: engine

text \<open>The engine refuses a text parameter that contains U+0000.\<close>

definition accepts_text :: "string \<Rightarrow> bool" where
  "accepts_text s = (CHR 0x00 \<notin> set s)"

definition accepts_param :: "string option \<Rightarrow> bool" where
  "accepts_param v = (case v of None \<Rightarrow> True | Some s \<Rightarrow> accepts_text s)"

datatype error =
  MISSING_BARCODE | ITEM_NOT_FOUND | OUT_OF_STOCK int | INVALID_FIELD | MISSING_FIELDS | SERVER_ERROR

text \<open>A reply is the HTTP status with the JSON body: an error object or the payload.\<close>

type_synonym 'a reply = "nat \<times> (error + 'a)"

subsection \<open>Statements\<close>

text \<open>\<^verbatim>\<open>INSERT INTO inventory_onhand (item_id, on_hand) VALUES ($1, 0) ON CONFLICT (item_id) DO NOTHING\<close>\<close>

definition ensureOnHandRow :: "db \<Rightarrow> ident \<Rightarrow> db" where
  "ensureOnHandRow d i =
     (case inventory_onhand d i of
        None \<Rightarrow> d\<lparr>inventory_onhand := (inventory_onhand d)(i \<mapsto> 0)\<rparr>
      | Some q \<Rightarrow> d)"

text \<open>
  \<^verbatim>\<open>SELECT ... FROM items WHERE "ScannedCode" = $1\<close>, of which the handlers read \<^verbatim>\<open>rows[0]\<close>.
  No stored scan code contains U+0000, so for a parameter the engine refuses there is
  no row; the handlers tell the refusal (the statement throws) from an unknown code.
\<close>

definition select_item :: "db \<Rightarrow> string \<Rightarrow> item option" where
  "select_item d code = find (\<lambda>r. ScannedCode r = code) (items d)"

text \<open>\<^verbatim>\<open>UPDATE inventory_onhand SET on_hand = on_hand + k WHERE item_id = $1\<close>: no row, no change.\<close>

definition update_on_hand :: "db \<Rightarrow> ident \<Rightarrow> int \<Rightarrow> db" where
  "update_on_hand d i k =
     (case inventory_onhand d i of
        None \<Rightarrow> d
      | Some q \<Rightarrow> d\<lparr>inventory_onhand := (inventory_onhand d)(i \<mapsto> q + k)\<rparr>)"

text \<open>\<^verbatim>\<open>INSERT INTO inventory_events (...) VALUES (...) RETURNING *\<close>\<close>

definition insert_event :: "db \<Rightarrow> event \<Rightarrow> db" where
  "insert_event d ev = d\<lparr>inventory_events := inventory_events d @ [ev]\<rparr>"

text \<open>
  JavaScript's \<^verbatim>\<open>!v\<close> on a body field that holds a string, \<^verbatim>\<open>null\<close> or nothing: true when
  the field is absent, \<^verbatim>\<open>null\<close> or the empty string.
\<close>

definition falsy :: "string option \<Rightarrow> bool" where
  "falsy v = (case v of None \<Rightarrow> True | Some s \<Rightarrow> s = [])"

section \<open>Stock mutation: add, remove/initiate, remove/confirm\<close>

record barcode_body =
  barcode :: "string option"

record confirm_body =
  cb_barcode :: "string option"
  cb_order_id :: "string option"
  cb_where_bought_from :: "string option"
  cb_date_subtracted :: "string option"

text \<open>\<^verbatim>\<open>POST /inventory/add\<close>: the reply carries the event and the selected columns \<^verbatim>\<open>id, "Model"\<close>.\<close>

definition inventory_add :: "db \<Rightarrow> barcode_body \<Rightarrow> (event \<times> ident \<times> string) reply \<times> db" where
  "inventory_add d body =
     (if falsy (barcode body) then ((400, Inl MISSING_BARCODE), d)
      else case select_item d (the (barcode body)) of
        None \<Rightarrow>
          (if accepts_text (the (barcode body)) then ((404, Inl ITEM_NOT_FOUND), d)
           else ((500, Inl SERVER_ERROR), d))
      | Some it \<Rightarrow>
          (let d1 = ensureOnHandRow d (item_id it);
               d2 = update_on_hand d1 (item_id it) 1;
               ev = \<lparr>ev_item_id = item_id it, ev_action = ActAdd, ev_qty = 1,
                     ev_order_id = None, ev_where_bought_from = None, ev_date_subtracted = None\<rparr>;
               d3 = insert_event d2 ev
           in ((201, Inr (ev, item_id it, Model it)), d3)))"

datatype initiate_status = CONFIRM_REQUIRED | REGISTERED_ZERO_STOCK

text \<open>The columns \<^verbatim>\<open>id, "ScannedCode", "Brand", "Model", "Color", "Size"\<close> of the initiate reply.\<close>

record initiate_item =
  ii_id :: ident
  ii_ScannedCode :: string
  ii_Brand :: "string option"
  ii_Model :: string
  ii_Color :: "string option"
  ii_Size :: "string option"

definition initiate_columns :: "item \<Rightarrow> initiate_item" where
  "initiate_columns it =
     \<lparr>ii_id = item_id it, ii_ScannedCode = ScannedCode it, ii_Brand = Brand it,
      ii_Model = Model it, ii_Color = Color it, ii_Size = Size it\<rparr>"

text \<open>
  \<^verbatim>\<open>POST /inventory/remove/initiate\<close>. The transaction is committed before the reply is
  chosen, so the ensured ledger row stays. Reading \<^verbatim>\<open>oh.rows[0].on_hand\<close> of an empty result
  would throw and land in the \<^verbatim>\<open>catch\<close> branch (rollback, 500).
\<close>

definition remove_initiate ::
  "db \<Rightarrow> barcode_body \<Rightarrow> (initiate_status \<times> initiate_item \<times> int) reply \<times> db" where
  "remove_initiate d body =
     (if falsy (barcode body) then ((400, Inl MISSING_BARCODE), d)
      else case select_item d (the (barcode body)) of
        None \<Rightarrow>
          (if accepts_text (the (barcode body)) then ((404, Inl ITEM_NOT_FOUND), d)
           else ((500, Inl SERVER_ERROR), d))
      | Some it \<Rightarrow>
          (let d1 = ensureOnHandRow d (item_id it)
           in case inventory_onhand d1 (item_id it) of
                None \<Rightarrow> ((500, Inl SERVER_ERROR), d)
              | Some onHand \<Rightarrow>
                  (if onHand > 0
                   then ((200, Inr (CONFIRM_REQUIRED, initiate_columns it, onHand)), d1)
                   else ((200, Inr (REGISTERED_ZERO_STOCK, initiate_columns it, 0)), d1))))"

datatype confirm_status = REMOVED

text \<open>
  The parameters \<^verbatim>\<open>$2, $3, $4\<close> of the event insert are \<^verbatim>\<open>orderId ?? null\<close>,
  \<^verbatim>\<open>whereBoughtFrom ?? null\<close> and \<^verbatim>\<open>dateSubtracted ?? null\<close>, the last under the cast
  \<^verbatim>\<open>$4::timestamptz\<close>. The statement throws when the engine refuses one of the texts or
  cannot cast the date; an empty date text is not \<^verbatim>\<open>null\<close> and goes to the cast.
\<close>

definition insert_refused :: "engine \<Rightarrow> confirm_body \<Rightarrow> bool" where
  "insert_refused e body =
     (\<not> accepts_param (cb_order_id body) \<or> \<not> accepts_param (cb_where_bought_from body) \<or>
      (case cb_date_subtracted body of
         None \<Rightarrow> False
       | Some s \<Rightarrow> timestamptz_in e s = None))"

text \<open>\<^verbatim>\<open>COALESCE($4::timestamptz, now())\<close>\<close>

definition date_subtracted_value :: "engine \<Rightarrow> string option \<Rightarrow> timestamp \<Rightarrow> timestamp" where
  "date_subtracted_value e v now =
     (case v of
        None \<Rightarrow> now
      | Some s \<Rightarrow> (case timestamptz_in e s of None \<Rightarrow> now | Some t \<Rightarrow> t))"

text \<open>
  \<^verbatim>\<open>POST /inventory/remove/confirm\<close>; \<open>now\<close> is the engine's \<^verbatim>\<open>now()\<close> for the transaction.
  The reply carries the status, the new on-hand quantity and the event. When the insert
  throws, the \<^verbatim>\<open>catch\<close> branch rolls the decrement back and answers 500.
\<close>

definition remove_confirm ::
  "db \<Rightarrow> confirm_body \<Rightarrow> timestamp \<Rightarrow> (confirm_status \<times> int \<times> event) reply \<times> db" where
  "remove_confirm d body now =
     (if falsy (cb_barcode body) then ((400, Inl MISSING_BARCODE), d)
      else case select_item d (the (cb_barcode body)) of
        None \<Rightarrow>
          (if accepts_text (the (cb_barcode body)) then ((404, Inl ITEM_NOT_FOUND), d)
           else ((500, Inl SERVER_ERROR), d))
      | Some it \<Rightarrow>
          (case inventory_onhand d (item_id it) of
             None \<Rightarrow> ((409, Inl (OUT_OF_STOCK 0)), d)
           | Some on_hand \<Rightarrow>
               (if on_hand \<le> 0 then ((409, Inl (OUT_OF_STOCK 0)), d)
                else
                  (let d1 = update_on_hand d (item_id it) (- 1)
                   in if insert_refused (db_engine d1) body then ((500, Inl SERVER_ERROR), d)
                      else
                        (let ev = \<lparr>ev_item_id = item_id it, ev_action = ActRemove, ev_qty = 1,
                                   ev_order_id = cb_order_id body,
                                   ev_where_bought_from = cb_where_bought_from body,
                                   ev_date_subtracted =
                                     Some (date_subtracted_value (db_engine d1) (cb_date_subtracted body) now)\<rparr>;
                             d2 = insert_event d1 ev;
                             newOnHand = on_hand - 1
                         in ((200, Inr (REMOVED, newOnHand, ev)), d2))))))"

section \<open>Catalog write\<close>

text \<open>
  A numeric body field as \<^verbatim>\<open>POST /items\<close> reads it: absent or \<^verbatim>\<open>null\<close>, the empty string, or
  any other value, given here by the number \<^verbatim>\<open>Number(...)\<close> makes of it. Whether the engine
  takes a number depends on the column's type, which the source does not give; the
  numbers a request carries are taken to fit their columns.
\<close>

datatype numeric_input = NumAbsent | NumEmptyString | NumGiven numeric

text \<open>\<^verbatim>\<open>(x === '' || x == null) ? null : Number(x)\<close>\<close>

fun numeric_param :: "numeric_input \<Rightarrow> numeric option" where
  "numeric_param NumAbsent = None"
| "numeric_param NumEmptyString = None"
| "numeric_param (NumGiven x) = Some x"

record items_body =
  ib_InventoryDate :: "string option"
  ib_ScannedCode :: "string option"
  ib_Brand :: "string option"
  ib_Model :: "string option"
  ib_Size :: "string option"
  ib_Color :: "string option"
  ib_Notes :: "string option"
  ib_SoldOrder :: "string option"
  ib_PurchasedFrom :: "string option"
  ib_PaintThickness :: numeric_input
  ib_Price :: numeric_input
  ib_Qty :: numeric_input

text \<open>
  \<^verbatim>\<open>$1\<close> is \<^verbatim>\<open>InventoryDate ?? new Date().toISOString()\<close>: a text, never \<^verbatim>\<open>null\<close>. \<open>clock\<close> is
  the text \<^verbatim>\<open>new Date().toISOString()\<close> gives when the handler runs.
\<close>

definition inventory_date_param :: "items_body \<Rightarrow> string \<Rightarrow> string" where
  "inventory_date_param body clock =
     (case ib_InventoryDate body of None \<Rightarrow> clock | Some t \<Rightarrow> t)"

text \<open>
  The upsert throws when the engine refuses one of its text parameters or cannot read
  \<^verbatim>\<open>$1\<close> as a timestamp.
\<close>

definition upsert_refused :: "engine \<Rightarrow> items_body \<Rightarrow> string \<Rightarrow> bool" where
  "upsert_refused e body clock =
     (\<not> list_all accepts_param
          [ib_ScannedCode body, ib_Brand body, ib_Model body, ib_Size body, ib_Color body,
           ib_Notes body, ib_SoldOrder body, ib_PurchasedFrom body] \<or>
      inventory_date_in e (inventory_date_param body clock) = None)"

text \<open>
  The twelve statement parameters \<^verbatim>\<open>$1 .. $12\<close>, as the row proposed for insertion
  (\<^verbatim>\<open>EXCLUDED\<close>); its inventory date is the engine's reading of \<^verbatim>\<open>$1\<close>.
\<close>

definition excluded_row :: "db \<Rightarrow> items_body \<Rightarrow> string \<Rightarrow> item" where
  "excluded_row d body clock =
     \<lparr>item_id = next_item_id d,
      InventoryDate = inventory_date_in (db_engine d) (inventory_date_param body clock),
      ScannedCode = the (ib_ScannedCode body),
      Brand = ib_Brand body,
      Model = the (ib_Model body),
      Size = ib_Size body,
      Color = ib_Color body,
      Notes = ib_Notes body,
      SoldOrder = ib_SoldOrder body,
      PurchasedFrom = ib_PurchasedFrom body,
      PaintThickness = numeric_param (ib_PaintThickness body),
      Price = numeric_param (ib_Price body),
      Qty = numeric_param (ib_Qty body)\<rparr>"

text \<open>
  The \<^verbatim>\<open>DO UPDATE SET\<close> list of the upsert, applied to the stored row \<open>old\<close>:
  \<^verbatim>\<open>"InventoryDate" = COALESCE(EXCLUDED."InventoryDate", items."InventoryDate")\<close> and every
  other listed column from \<^verbatim>\<open>EXCLUDED\<close>; the identifier and the scan code stay.
\<close>

definition do_update_set :: "item \<Rightarrow> item \<Rightarrow> item" where
  "do_update_set excluded old =
     old\<lparr>InventoryDate :=
           (case InventoryDate excluded of None \<Rightarrow> InventoryDate old | Some t \<Rightarrow> Some t),
         Brand := Brand excluded,
         Model := Model excluded,
         Size := Size excluded,
         Color := Color excluded,
         Notes := Notes excluded,
         SoldOrder := SoldOrder excluded,
         PurchasedFrom := PurchasedFrom excluded,
         PaintThickness := PaintThickness excluded,
         Price := Price excluded,
         Qty := Qty excluded\<rparr>"

text \<open>
  \<^verbatim>\<open>INSERT INTO items (...) VALUES (...) ON CONFLICT ("ScannedCode") DO UPDATE SET ... RETURNING *\<close>:
  the store after the statement and the row it returns.
\<close>

definition upsert_item :: "db \<Rightarrow> item \<Rightarrow> db \<times> item" where
  "upsert_item d excluded =
     (case select_item d (ScannedCode excluded) of
        None \<Rightarrow>
          (d\<lparr>items := items d @ [excluded], next_item_id := Suc (next_item_id d)\<rparr>, excluded)
      | Some old \<Rightarrow>
          (d\<lparr>items := map (\<lambda>r. if ScannedCode r = ScannedCode excluded
                                 then do_update_set excluded r else r) (items d)\<rparr>,
           do_update_set excluded old))"

text \<open>\<^verbatim>\<open>POST /items\<close>; when the upsert throws, the \<^verbatim>\<open>catch\<close> branch rolls back and answers 500.\<close>

definition post_items :: "db \<Rightarrow> items_body \<Rightarrow> string \<Rightarrow> item reply \<times> db" where
  "post_items d body clock =
     (if falsy (ib_ScannedCode body) \<or> falsy (ib_Model body)
      then ((400, Inl MISSING_FIELDS), d)
      else if upsert_refused (db_engine d) body clock then ((500, Inl SERVER_ERROR), d)
      else
        (let (d1, it) = upsert_item d (excluded_row d body clock);
             d2 = ensureOnHandRow d1 (item_id it)
         in ((201, Inr it), d2)))"

section \<open>Sequential runs of the API\<close>

datatype call =
    PostItems items_body string
  | AddOne barcode_body
  | InitiateRemove barcode_body
  | ConfirmRemove confirm_body timestamp

fun step :: "db \<Rightarrow> call \<Rightarrow> db" where
  "step d (PostItems body clock) = snd (post_items d body clock)"
| "step d (AddOne body) = snd (inventory_add d body)"
| "step d (InitiateRemove body) = snd (remove_initiate d body)"
| "step d (ConfirmRemove body now) = snd (remove_confirm d body now)"

fun status :: "db \<Rightarrow> call \<Rightarrow> nat" where
  "status d (PostItems body clock) = fst (fst (post_items d body clock))"
| "status d (AddOne body) = fst (fst (inventory_add d body))"
| "status d (InitiateRemove body) = fst (fst (remove_initiate d body))"
| "status d (ConfirmRemove body now) = fst (fst (remove_confirm d body now))"

text \<open>The store after the calls \<open>cs\<close>, each run to its end before the next starts.\<close>

fun run :: "db \<Rightarrow> call list \<Rightarrow> db" where
  "run d [] = d"
| "run d (c # cs) = run (step d c) cs"

text \<open>How many calls of the kind \<open>P\<close> were answered with a 2xx status along the run.\<close>

fun successes :: "(call \<Rightarrow> bool) \<Rightarrow> db \<Rightarrow> call list \<Rightarrow> nat" where
  "successes P d [] = 0"
| "successes P d (c # cs) =
     (if P c \<and> status d c < 300 then 1 else 0) + successes P (step d c) cs"

fun is_add :: "call \<Rightarrow> bool" where
  "is_add (AddOne body) = True"
| "is_add c = False"

fun is_confirm :: "call \<Rightarrow> bool" where
  "is_confirm (ConfirmRemove body now) = True"
| "is_confirm c = False"

text \<open>An add or a confirm call for the scan code \<open>code\<close>.\<close>

fun stock_call_for :: "string \<Rightarrow> call \<Rightarrow> bool" where
  "stock_call_for code (AddOne body) = (barcode body = Some code)"
| "stock_call_for code (ConfirmRemove body now) = (cb_barcode body = Some code)"
| "stock_call_for code c = False"

text \<open>The number of events of kind \<open>a\<close> the log holds for item \<open>i\<close>.\<close>

definition count_events :: "db \<Rightarrow> ident \<Rightarrow> action \<Rightarrow> nat" where
  "count_events d i a =
     length (filter (\<lambda>e. ev_item_id e = i \<and> ev_action e = a) (inventory_events d))"

text \<open>\<^verbatim>\<open>COALESCE(oh.on_hand, 0)\<close>: the on-hand quantity of an item, 0 while it has no ledger row.\<close>

definition on_hand_of :: "db \<Rightarrow> ident \<Rightarrow> int" where
  "on_hand_of d i = (case inventory_onhand d i of None \<Rightarrow> 0 | Some q \<Rightarrow> q)"

text \<open>The store after \<open>n\<close> initiate calls with the same body, none of them confirmed.\<close>

definition initiate_times :: "nat \<Rightarrow> db \<Rightarrow> barcode_body \<Rightarrow> db" where
  "initiate_times n d body = ((\<lambda>s. snd (remove_initiate s body)) ^^ n) d"

text \<open>No ledger row holds a negative quantity.\<close>

definition ledger_nonneg :: "db \<Rightarrow> bool" where
  "ledger_nonneg d = (\<forall>i q. inventory_onhand d i = Some q \<longrightarrow> 0 \<le> q)"

section \<open>Search and facets\<close>

subsection \<open>Strings as JavaScript and the engine treat them\<close>

text \<open>
  The white space and line terminators of JavaScript, in UTF-8: U+0009 to U+000D, U+0020,
  U+00A0, U+1680, U+2000 to U+200A, U+2028, U+2029, U+202F, U+205F, U+3000 and U+FEFF.
\<close>

definition white_space :: "string list" where
  "white_space =
     [[CHR 0x09], [CHR 0x0A], [CHR 0x0B], [CHR 0x0C], [CHR 0x0D], [CHR 0x20],
      [CHR 0xC2, CHR 0xA0],
      [CHR 0xE1, CHR 0x9A, CHR 0x80],
      [CHR 0xE2, CHR 0x80, CHR 0x80], [CHR 0xE2, CHR 0x80, CHR 0x81],
      [CHR 0xE2, CHR 0x80, CHR 0x82], [CHR 0xE2, CHR 0x80, CHR 0x83],
      [CHR 0xE2, CHR 0x80, CHR 0x84], [CHR 0xE2, CHR 0x80, CHR 0x85],
      [CHR 0xE2, CHR 0x80, CHR 0x86], [CHR 0xE2, CHR 0x80, CHR 0x87],
      [CHR 0xE2, CHR 0x80, CHR 0x88], [CHR 0xE2, CHR 0x80, CHR 0x89],
      [CHR 0xE2, CHR 0x80, CHR 0x8A],
      [CHR 0xE2, CHR 0x80, CHR 0xA8], [CHR 0xE2, CHR 0x80, CHR 0xA9],
      [CHR 0xE2, CHR 0x80, CHR 0xAF],
      [CHR 0xE2, CHR 0x81, CHR 0x9F],
      [CHR 0xE3, CHR 0x80, CHR 0x80],
      [CHR 0xEF, CHR 0xBB, CHR 0xBF]]"

text \<open>Takes the words of \<open>ws\<close> off the front of \<open>s\<close> for as long as one of them is there.\<close>

function strip_leading :: "string list \<Rightarrow> string \<Rightarrow> string" where
  "strip_leading ws s =
     (case find (\<lambda>w. w \<noteq> [] \<and> take (length w) s = w) ws of
        None \<Rightarrow> s
      | Some w \<Rightarrow> strip_leading ws (drop (length w) s))"
  by pat_completeness auto
termination
proof (relation "measure (\<lambda>(ws, s). length s)")
  show "wf (measure (\<lambda>(ws, s). length s))" by simp
next
  fix ws :: "string list" and s w :: string
  assume "find (\<lambda>w. w \<noteq> [] \<and> take (length w) s = w) ws = Some w"
  then have "w \<noteq> []" and "take (length w) s = w"
    by (auto simp: find_Some_iff)
  then have "0 < length w" and "length w \<le> length s"
  proof -
    assume nonempty: "w \<noteq> []" and front: "take (length w) s = w"
    from nonempty show "0 < length w" by simp
    have "length (take (length w) s) \<le> length s" by simp
    with front show "length w \<le> length s" by simp
  qed
  then show "((ws, drop (length w) s), (ws, s)) \<in> measure (\<lambda>(ws, s). length s)"
    by (cases w) simp_all
qed

text \<open>\<^verbatim>\<open>String.prototype.trim()\<close>: white space off both ends.\<close>

definition trim :: "string \<Rightarrow> string" where
  "trim s = rev (strip_leading (map rev white_space) (rev (strip_leading white_space s)))"

text \<open>
  \<^verbatim>\<open>toLowerCase\<close>, \<^verbatim>\<open>LOWER\<close> and \<^verbatim>\<open>ILIKE\<close> fold the letters A to Z; what they do to letters
  outside ASCII depends on the locale and is left out: such bytes stay as they are.
\<close>

text \<open>The engine's \<^verbatim>\<open>btrim(text)\<close> strips spaces only.\<close>

definition btrim :: "string \<Rightarrow> string" where
  "btrim s = rev (dropWhile (\<lambda>c. c = CHR 0x20) (rev (dropWhile (\<lambda>c. c = CHR 0x20) s)))"

definition lower_char :: "char \<Rightarrow> char" where
  "lower_char c = (if CHR ''A'' \<le> c \<and> c \<le> CHR ''Z'' then char_of (of_char c + (32::nat)) else c)"

definition toLowerCase :: "string \<Rightarrow> string" where
  "toLowerCase s = map lower_char s"

text \<open>\<^verbatim>\<open>Array.prototype.join(',')\<close>, which is also an array's \<^verbatim>\<open>String(...)\<close>, and \<^verbatim>\<open>split(',')\<close>.\<close>

fun join_comma :: "string list \<Rightarrow> string" where
  "join_comma [] = []"
| "join_comma [x] = x"
| "join_comma (x # y # ys) = x @ CHR '','' # join_comma (y # ys)"

fun split_acc :: "string \<Rightarrow> string \<Rightarrow> string list" where
  "split_acc acc [] = [rev acc]"
| "split_acc acc (c # cs) =
     (if c = CHR '','' then rev acc # split_acc [] cs else split_acc (c # acc) cs)"

definition split_comma :: "string \<Rightarrow> string list" where
  "split_comma s = split_acc [] s"

definition backslash :: char where
  "backslash = CHR 0x5C"

text \<open>
  The engine's \<^verbatim>\<open>LIKE\<close> with its default escape character, the backslash: \<^verbatim>\<open>%\<close> stands
  for any run of characters, \<^verbatim>\<open>_\<close> for any one character, and a backslash makes the
  character after it literal. The operator belongs to the store, not to the repository;
  this is its documented behaviour. A pattern that ends in a lone backslash is an error of
  the engine; \<open>qPattern\<close> below builds none, and the matcher answers \<open>False\<close> there.
\<close>

fun like_match :: "string \<Rightarrow> string \<Rightarrow> bool" where
  "like_match [] s = (s = [])"
| "like_match (p # ps) s =
     (if p = CHR ''%'' then
        (like_match ps s \<or> (case s of [] \<Rightarrow> False | c # cs \<Rightarrow> like_match (p # ps) cs))
      else if p = CHR ''_'' then
        (case s of [] \<Rightarrow> False | c # cs \<Rightarrow> like_match ps cs)
      else if p = backslash then
        (case ps of
           [] \<Rightarrow> False
         | e # es \<Rightarrow> (case s of [] \<Rightarrow> False | c # cs \<Rightarrow> c = e \<and> like_match es cs))
      else
        (case s of [] \<Rightarrow> False | c # cs \<Rightarrow> c = p \<and> like_match ps cs))"

text \<open>\<^verbatim>\<open>column ILIKE $1\<close>; a \<^verbatim>\<open>NULL\<close> column matches nothing.\<close>

definition ilike :: "string option \<Rightarrow> string \<Rightarrow> bool" where
  "ilike v p = (case v of None \<Rightarrow> False | Some s \<Rightarrow> like_match (toLowerCase p) (toLowerCase s))"

subsection \<open>Requests and the field map\<close>

text \<open>\<^verbatim>\<open>req.query\<close>: a parameter is absent, a string, or an array of strings when repeated.\<close>

datatype query_value = QString string | QArray "string list"

type_synonym query = "string \<Rightarrow> query_value option"

datatype column =
  ColBrand | ColModel | ColSize | ColColor | ColPurchasedFrom | ColScannedCode | ColNotes | ColSoldOrder

definition FIELD_MAP :: "(string \<times> column) list" where
  "FIELD_MAP =
     [(''brand'', ColBrand), (''model'', ColModel), (''size'', ColSize), (''color'', ColColor),
      (''purchasedfrom'', ColPurchasedFrom), (''scannedcode'', ColScannedCode),
      (''notes'', ColNotes), (''soldorder'', ColSoldOrder)]"

fun column_of :: "column \<Rightarrow> item \<Rightarrow> string option" where
  "column_of ColBrand it = Brand it"
| "column_of ColModel it = Some (Model it)"
| "column_of ColSize it = Size it"
| "column_of ColColor it = Color it"
| "column_of ColPurchasedFrom it = PurchasedFrom it"
| "column_of ColScannedCode it = Some (ScannedCode it)"
| "column_of ColNotes it = Notes it"
| "column_of ColSoldOrder it = SoldOrder it"

text \<open>
  \<^verbatim>\<open>FIELD_MAP\<close> is an object literal, so \<^verbatim>\<open>FIELD_MAP[k]\<close> also finds the properties every
  object inherits from \<^verbatim>\<open>Object.prototype\<close>; such a value is truthy and is not a column.
\<close>

definition object_prototype_keys :: "string list" where
  "object_prototype_keys =
     [''constructor'', ''__defineGetter__'', ''__defineSetter__'', ''hasOwnProperty'',
      ''__lookupGetter__'', ''__lookupSetter__'', ''isPrototypeOf'', ''propertyIsEnumerable'',
      ''toString'', ''valueOf'', ''__proto__'', ''toLocaleString'']"

datatype 'a property = Own 'a | Inherited | Undefined

definition field_map_get :: "string \<Rightarrow> column property" where
  "field_map_get k =
     (case map_of FIELD_MAP k of
        Some c \<Rightarrow> Own c
      | None \<Rightarrow> if k \<in> set object_prototype_keys then Inherited else Undefined)"

text \<open>\<^verbatim>\<open>String(v)\<close> and \<^verbatim>\<open>v.toString()\<close> of a query parameter.\<close>

fun to_string :: "query_value \<Rightarrow> string" where
  "to_string (QString s) = s"
| "to_string (QArray xs) = join_comma xs"

subsection \<open>Distinct values\<close>

definition count_of :: "string list \<Rightarrow> string \<Rightarrow> nat" where
  "count_of vs v = length (filter (\<lambda>x. x = v) vs)"

text \<open>\<^verbatim>\<open>String(req.query.field || '').toLowerCase()\<close>\<close>

definition fieldParam :: "query \<Rightarrow> string" where
  "fieldParam q = toLowerCase (case q ''field'' of None \<Rightarrow> [] | Some v \<Rightarrow> to_string v)"

text \<open>
  \<^verbatim>\<open>GET /items/distinct\<close>. An inherited property passes the \<^verbatim>\<open>!col\<close> test and is spliced into
  the statement, which the engine then rejects: the \<^verbatim>\<open>catch\<close> branch answers 500.
\<close>

definition items_distinct :: "db \<Rightarrow> query \<Rightarrow> (string \<times> nat) list reply" where
  "items_distinct d q =
     (case field_map_get (fieldParam q) of
           Undefined \<Rightarrow> (400, Inl INVALID_FIELD)
         | Inherited \<Rightarrow> (500, Inl SERVER_ERROR)
         | Own col \<Rightarrow>
             (let vs = filter (\<lambda>v. btrim v \<noteq> []) (List.map_filter (column_of col) (items d))
              in (200, Inr (map (\<lambda>v. (v, count_of vs v)) (sort_key toLowerCase (remdups vs))))))"

subsection \<open>Search\<close>

text \<open>\<^verbatim>\<open>(req.query.q ?? '').toString().trim()\<close>\<close>

definition qRaw :: "query \<Rightarrow> string" where
  "qRaw q = trim (case q ''q'' of None \<Rightarrow> [] | Some v \<Rightarrow> to_string v)"

text \<open>\<^verbatim>\<open>qRaw.replace(/[%_]/g, '\\$&')\<close>: a backslash before every \<^verbatim>\<open>%\<close> and \<^verbatim>\<open>_\<close>.\<close>

fun escape_like :: "string \<Rightarrow> string" where
  "escape_like [] = []"
| "escape_like (c # cs) =
     (if c = CHR ''%'' \<or> c = CHR ''_'' then backslash # c # escape_like cs else c # escape_like cs)"

definition qPattern :: "query \<Rightarrow> string option" where
  "qPattern q = (if qRaw q = [] then None else Some (CHR ''%'' # escape_like (qRaw q) @ [CHR ''%'']))"

definition parseList :: "query \<Rightarrow> string \<Rightarrow> string list" where
  "parseList q k =
     (case q k of
        None \<Rightarrow> []
      | Some v \<Rightarrow>
          if v = QString [] then []
          else filter (\<lambda>x. x \<noteq> []) (map trim (split_comma (to_string v))))"

definition filters :: "query \<Rightarrow> (string \<times> string list) list" where
  "filters q =
     [(''brand'', parseList q ''brand''),
      (''model'', parseList q ''model''),
      (''size'', parseList q ''size''),
      (''color'', parseList q ''color''),
      (''purchasedfrom'', parseList q ''purchasedfrom''),
      (''scannedcode'', parseList q ''scannedcode''),
      (''notes'', parseList q ''notes''),
      (''soldorder'', parseList q ''soldorder'')]"

text \<open>
  The free-text condition: the twelve columns under \<^verbatim>\<open>ILIKE $1\<close>, the last four cast to
  text. \<open>out\<close> is the engine's \<^verbatim>\<open>CAST("InventoryDate" AS TEXT)\<close>.
\<close>

definition text_clause :: "(timestamp \<Rightarrow> string) \<Rightarrow> string \<Rightarrow> item \<Rightarrow> bool" where
  "text_clause out p it =
     (ilike (Some (ScannedCode it)) p \<or> ilike (Brand it) p \<or> ilike (Some (Model it)) p \<or>
      ilike (Size it) p \<or> ilike (Color it) p \<or> ilike (Notes it) p \<or>
      ilike (SoldOrder it) p \<or> ilike (PurchasedFrom it) p \<or>
      ilike (PaintThickness it) p \<or> ilike (Price it) p \<or> ilike (Qty it) p \<or>
      ilike (map_option out (InventoryDate it)) p)"

text \<open>\<^verbatim>\<open>LOWER(col) = ANY($i)\<close> with the values lower-cased; every key of \<open>filters\<close> is one of \<open>FIELD_MAP\<close>.\<close>

definition filter_clause :: "string \<times> string list \<Rightarrow> item \<Rightarrow> bool" where
  "filter_clause kv it =
     (case map_of FIELD_MAP (fst kv) of
        None \<Rightarrow> False
      | Some col \<Rightarrow>
          (case column_of col it of
             None \<Rightarrow> False
           | Some v \<Rightarrow> toLowerCase v \<in> set (map toLowerCase (snd kv))))"

definition where_clauses :: "(timestamp \<Rightarrow> string) \<Rightarrow> query \<Rightarrow> (item \<Rightarrow> bool) list" where
  "where_clauses out q =
     (case qPattern q of None \<Rightarrow> [] | Some p \<Rightarrow> [text_clause out p]) @
     map filter_clause (filter (\<lambda>kv. snd kv \<noteq> []) (filters q))"

text \<open>
  The texts the statement gets as parameters: the pattern, if there is one, and the
  lower-cased values of every filter that has values.
\<close>

definition search_params :: "query \<Rightarrow> string list" where
  "search_params q =
     (case qPattern q of None \<Rightarrow> [] | Some p \<Rightarrow> [p]) @
     concat (map (\<lambda>kv. map toLowerCase (snd kv)) (filter (\<lambda>kv. snd kv \<noteq> []) (filters q)))"

text \<open>\<^verbatim>\<open>ORDER BY i."Brand" NULLS LAST, i."Model" NULLS LAST, i."ScannedCode"\<close>\<close>

definition order_key :: "item \<Rightarrow> (bool \<times> string) \<times> string \<times> string" where
  "order_key it =
     ((Brand it = None, case Brand it of None \<Rightarrow> [] | Some b \<Rightarrow> b), Model it, ScannedCode it)"

text \<open>
  \<^verbatim>\<open>GET /items/search\<close>: each row with \<^verbatim>\<open>COALESCE(oh.on_hand, 0)\<close>, at most 200 rows. When the
  engine refuses a parameter, the query throws and the \<^verbatim>\<open>catch\<close> branch answers 500.
\<close>

definition items_search :: "db \<Rightarrow> query \<Rightarrow> (item \<times> int) list reply" where
  "items_search d q =
     (if \<not> list_all accepts_text (search_params q) then (500, Inl SERVER_ERROR)
      else
        (let matching =
               filter (\<lambda>it. list_all (\<lambda>clause. clause it)
                                   (where_clauses (inventory_date_out (db_engine d)) q))
                 (items d);
             limit = 200
         in (200, Inr (map (\<lambda>it. (it, on_hand_of d (item_id it)))
                        (take limit (sort_key order_key matching))))))"

subsection \<open>The free-text match as the specification words it\<close>

text \<open>
  The specification asks for a case-insensitive substring match of the text over a fixed
  set of columns. \<open>contains s r\<close> says that \<open>r\<close> occurs in \<open>s\<close>; \<open>spec_text_match\<close> is
  that reading, to be compared with \<open>text_clause\<close>, which is what the statement computes.
\<close>

fun starts_with :: "string \<Rightarrow> string \<Rightarrow> bool" where
  "starts_with s [] = True"
| "starts_with [] (r # rs) = False"
| "starts_with (c # cs) (r # rs) = (c = r \<and> starts_with cs rs)"

fun contains :: "string \<Rightarrow> string \<Rightarrow> bool" where
  "contains [] r = (r = [])"
| "contains (c # cs) r = (starts_with (c # cs) r \<or> contains cs r)"

definition text_columns :: "(timestamp \<Rightarrow> string) \<Rightarrow> item \<Rightarrow> string option list" where
  "text_columns out it =
     [Some (ScannedCode it), Brand it, Some (Model it), Size it, Color it, Notes it,
      SoldOrder it, PurchasedFrom it, PaintThickness it, Price it, Qty it,
      map_option out (InventoryDate it)]"

definition spec_text_match :: "(timestamp \<Rightarrow> string) \<Rightarrow> string \<Rightarrow> item \<Rightarrow> bool" where
  "spec_text_match out r it =
     list_ex (\<lambda>v. case v of None \<Rightarrow> False
                   | Some s \<Rightarrow> contains (toLowerCase s) (toLowerCase r)) (text_columns out it)"

section \<open>Scan session: the remove confirmation\<close>

text \<open>
  The web client (\<^verbatim>\<open>src/web/src/ui/App.tsx\<close>) holds the pending removal in the state
  variable \<^verbatim>\<open>confirmRemove\<close>; while it is set, \<^verbatim>\<open>ConfirmRemoveModal\<close> is shown with the
  handlers \<^verbatim>\<open>onCancel\<close> and \<^verbatim>\<open>onConfirm\<close>. A handler is a function from the client state and
  the server's store to the new client state, the new store and the bodies it posted to
  \<^verbatim>\<open>/inventory/remove/confirm\<close>. Requests that fail in transport are outside the model.
\<close>

datatype mode = ModeIdle | ModeAdd | ModeRemove | ModeSearch

text \<open>A toast is a fixed text, or the text built from the item's name and the new quantity.\<close>

datatype toast_message = Text string | RemovedOne string int

record app_state =
  app_mode :: mode
  toast :: toast_message
  scanInput :: string
  confirmRemove :: "(initiate_item \<times> int) option"

text \<open>The three inputs of the dialog.\<close>

record confirm_form =
  orderId :: string
  whereBought :: string
  dateSub :: string

text \<open>The object the dialog hands to \<^verbatim>\<open>onConfirm\<close>, keyed as the server reads the body.\<close>

record confirm_extra =
  x_order_id :: "string option"
  x_where_bought_from :: "string option"
  x_date_subtracted :: "string option"

text \<open>\<^verbatim>\<open>s || null\<close>\<close>

definition or_null :: "string \<Rightarrow> string option" where
  "or_null s = (if s = [] then None else Some s)"

text \<open>
  The argument of the button \<^verbatim>\<open>Yes, remove 1\<close>. The date is
  \<^verbatim>\<open>dateSub ? new Date(dateSub).toISOString() : null\<close>. \<open>toISO\<close> stands for
  \<^verbatim>\<open>new Date(s).toISOString()\<close> in the operator's browser: it reads the field's text as local
  time, so it depends on the browser's time zone, and it throws on a text that is no
  date (\<open>None\<close>); the click then ends there and \<^verbatim>\<open>onConfirm\<close> is not called.
\<close>

definition yes_payload :: "(string \<Rightarrow> string option) \<Rightarrow> confirm_form \<Rightarrow> confirm_extra option" where
  "yes_payload toISO form =
     (if dateSub form = [] then
        Some \<lparr>x_order_id = or_null (orderId form),
              x_where_bought_from = or_null (whereBought form),
              x_date_subtracted = None\<rparr>
      else
        (case toISO (dateSub form) of
           None \<Rightarrow> None
         | Some text \<Rightarrow>
             Some \<lparr>x_order_id = or_null (orderId form),
                   x_where_bought_from = or_null (whereBought form),
                   x_date_subtracted = Some text\<rparr>))"

text \<open>\<^verbatim>\<open>`${(item.Brand ?? '').trim()} ${item.Model}`.trim()\<close>\<close>

definition displayName :: "initiate_item \<Rightarrow> string" where
  "displayName item =
     trim (trim (case ii_Brand item of None \<Rightarrow> [] | Some b \<Rightarrow> b) @ '' '' @ ii_Model item)"

text \<open>The toast chosen from the reply: the server answers 2xx exactly with the payload.\<close>

definition confirm_toast :: "initiate_item \<Rightarrow> (confirm_status \<times> int \<times> event) reply \<Rightarrow> toast_message" where
  "confirm_toast item r =
     (case snd r of
        Inr (st, n, ev) \<Rightarrow> RemovedOne (displayName item) n
      | Inl (OUT_OF_STOCK k) \<Rightarrow> Text ''Already out of stock.''
      | Inl e \<Rightarrow> Text ''Failed to remove'')"

definition onCancel :: "app_state \<Rightarrow> app_state" where
  "onCancel st = st\<lparr>confirmRemove := None\<rparr>"

type_synonym confirm_handler =
  "app_state \<Rightarrow> db \<Rightarrow> confirm_extra \<Rightarrow> timestamp \<Rightarrow> app_state \<times> db \<times> confirm_body list"

text \<open>
  \<^verbatim>\<open>onConfirm\<close> of \<^verbatim>\<open>App.tsx\<close> (lines 309 to 328). The handler is written without a parameter,
  \<^verbatim>\<open>async () => ...\<close>, and posts \<^verbatim>\<open>{ barcode: confirmRemove.item.ScannedCode }\<close>. Without a
  pending removal the dialog is not shown and nothing happens.
\<close>

definition onConfirm :: confirm_handler where
  "onConfirm st d extra now =
     (case confirmRemove st of
        None \<Rightarrow> (st, d, [])
      | Some (item, onHand) \<Rightarrow>
          (let body = \<lparr>cb_barcode = Some (ii_ScannedCode item), cb_order_id = None,
                       cb_where_bought_from = None, cb_date_subtracted = None\<rparr>;
               (r, d') = remove_confirm d body now
           in (st\<lparr>toast := confirm_toast item r, confirmRemove := None, scanInput := []\<rparr>,
               d', [body])))"

text \<open>
  \<^verbatim>\<open>onConfirm\<close> of the client's other revision (\<^verbatim>\<open>src/unnamed/part_001\<close>, lines 391 to 413):
  \<^verbatim>\<open>async (extra) => ...\<close> posts \<^verbatim>\<open>{ barcode: confirmRemove.item.ScannedCode, ...extra }\<close>.
\<close>

definition onConfirm_part_001 :: confirm_handler where
  "onConfirm_part_001 st d extra now =
     (case confirmRemove st of
        None \<Rightarrow> (st, d, [])
      | Some (item, onHand) \<Rightarrow>
          (let body = \<lparr>cb_barcode = Some (ii_ScannedCode item), cb_order_id = x_order_id extra,
                       cb_where_bought_from = x_where_bought_from extra,
                       cb_date_subtracted = x_date_subtracted extra\<rparr>;
               (r, d') = remove_confirm d body now
           in (st\<lparr>toast := confirm_toast item r, confirmRemove := None, scanInput := []\<rparr>,
               d', [body])))"

datatype button = No | Yes

text \<open>
  \<^verbatim>\<open>ConfirmRemoveModal\<close>: the button \<^verbatim>\<open>No\<close> calls \<^verbatim>\<open>onCancel()\<close>, the button \<^verbatim>\<open>Yes, remove 1\<close>
  calls \<^verbatim>\<open>onConfirm\<close> with the payload built from the form.
\<close>

definition ConfirmRemoveModal ::
  "(string \<Rightarrow> string option) \<Rightarrow> confirm_handler \<Rightarrow> button \<Rightarrow> confirm_form \<Rightarrow> app_state \<Rightarrow> db
     \<Rightarrow> timestamp \<Rightarrow> app_state \<times> db \<times> confirm_body list" where
  "ConfirmRemoveModal toISO handler b form st d now =
     (case b of
        No \<Rightarrow> (onCancel st, d, [])
      | Yes \<Rightarrow>
          (case yes_payload toISO form of
             None \<Rightarrow> (st, d, [])
           | Some extra \<Rightarrow> handler st d extra now))"

section \<open>Concrete stores and requests\<close>

text \<open>
  A sample engine and a sample browser for the concrete stores, both in the time zone
  UTC. The engine reads the texts \<^verbatim>\<open>toISOString\<close> prints (24 characters,
  \<^verbatim>\<open>2025-06-01T12:00:00.000Z\<close>) and, as a sample, refuses every other text, the empty one
  among them; an engine in use reads more formats. It holds a timestamp as that text and
  prints it as \<^verbatim>\<open>2025-06-01 12:00:00+00\<close>, with the fraction when it is not zero. The
  browser turns the text of a \<^verbatim>\<open>datetime-local\<close> field (\<^verbatim>\<open>2025-06-01T10:00\<close>) into
  \<^verbatim>\<open>2025-06-01T10:00:00.000Z\<close>.
\<close>

definition is_digit :: "char \<Rightarrow> bool" where
  "is_digit c = (CHR ''0'' \<le> c \<and> c \<le> CHR ''9'')"

text \<open>\<open>s\<close> has the shape of \<open>template\<close>, where \<open>d\<close> in the template stands for a digit.\<close>

definition has_shape :: "string \<Rightarrow> string \<Rightarrow> bool" where
  "has_shape template s =
     (length s = length template \<and>
      list_all (\<lambda>tc. if fst tc = CHR ''d'' then is_digit (snd tc) else snd tc = fst tc)
        (zip template s))"

definition iso_in :: "string \<Rightarrow> timestamp option" where
  "iso_in s = (if has_shape ''dddd-dd-ddTdd:dd:dd.dddZ'' s then Some s else None)"

definition utc_out :: "timestamp \<Rightarrow> string" where
  "utc_out t =
     (let fraction = rev (dropWhile (\<lambda>c. c = CHR ''0'') (rev (take 3 (drop 20 t))))
      in take 10 t @ '' '' @ take 8 (drop 11 t) @
         (if fraction = [] then [] else CHR ''.'' # fraction) @ ''+00'')"

definition utc_engine :: engine where
  "utc_engine = \<lparr>timestamptz_in = iso_in, inventory_date_in = iso_in,
     inventory_date_out = utc_out\<rparr>"

definition utc_toISOString :: "string \<Rightarrow> string option" where
  "utc_toISOString s = (if has_shape ''dddd-dd-ddTdd:dd'' s then Some (s @ '':00.000Z'') else None)"

definition empty_db :: db where
  "empty_db = \<lparr>items = [], inventory_onhand = Map.empty, inventory_events = [], next_item_id = 0,
     db_engine = utc_engine\<rparr>"

definition widget :: item where
  "widget = \<lparr>item_id = 0, InventoryDate = Some ''2024-01-01T00:00:00.000Z'',
     ScannedCode = ''X1'', Brand = None, Model = ''Widget'', Size = None, Color = None,
     Notes = None, SoldOrder = None, PurchasedFrom = None, PaintThickness = None,
     Price = None, Qty = None\<rparr>"

text \<open>The store that holds \<open>widget\<close> alone, with \<open>q\<close> units on hand and an empty event log.\<close>

definition shop :: "int \<Rightarrow> db" where
  "shop q = \<lparr>items = [widget], inventory_onhand = [0 \<mapsto> q], inventory_events = [],
     next_item_id = 1, db_engine = utc_engine\<rparr>"

definition scan_X1 :: barcode_body where
  "scan_X1 = \<lparr>barcode = Some ''X1''\<rparr>"

definition confirm_X1 :: confirm_body where
  "confirm_X1 = \<lparr>cb_barcode = Some ''X1'', cb_order_id = Some ''SO-12345'',
     cb_where_bought_from = None, cb_date_subtracted = None\<rparr>"

text \<open>The same confirm request with an empty \<^verbatim>\<open>Date Subtracted\<close>, which no engine reads as a date.\<close>

definition confirm_X1_empty_date :: confirm_body where
  "confirm_X1_empty_date = confirm_X1\<lparr>cb_date_subtracted := Some []\<rparr>"

text \<open>A catalog write for the scan code of \<open>widget\<close> that sends no \<^verbatim>\<open>InventoryDate\<close>.\<close>

definition rewrite_X1 :: items_body where
  "rewrite_X1 = \<lparr>ib_InventoryDate = None, ib_ScannedCode = Some ''X1'', ib_Brand = Some ''Acme'',
     ib_Model = Some ''Widget 2'', ib_Size = None, ib_Color = Some ''Blue'', ib_Notes = None,
     ib_SoldOrder = None, ib_PurchasedFrom = None, ib_PaintThickness = NumAbsent,
     ib_Price = NumGiven ''12.5'', ib_Qty = NumEmptyString\<rparr>"

definition create_X1 :: items_body where
  "create_X1 = \<lparr>ib_InventoryDate = None, ib_ScannedCode = Some ''X1'', ib_Brand = None,
     ib_Model = Some ''Widget'', ib_Size = None, ib_Color = None, ib_Notes = None,
     ib_SoldOrder = None, ib_PurchasedFrom = None, ib_PaintThickness = NumAbsent,
     ib_Price = NumAbsent, ib_Qty = NumAbsent\<rparr>"

text \<open>The scenario of the specification: create the item, add one, initiate, confirm.\<close>

definition scenario :: "call list" where
  "scenario = [PostItems create_X1 ''2025-06-01T12:00:00.000Z'', AddOne scan_X1,
     InitiateRemove scan_X1, ConfirmRemove confirm_X1 ''2025-06-01T12:05:00.000Z'']"

definition two_adds_one_confirm :: "call list" where
  "two_adds_one_confirm =
     [AddOne scan_X1, AddOne scan_X1, ConfirmRemove confirm_X1 ''2025-06-01T12:05:00.000Z'']"

text \<open>An item whose notes read \<^verbatim>\<open>a\b\<close>, and the search text \<^verbatim>\<open>\_\<close>.\<close>

definition noted :: item where
  "noted = widget\<lparr>Notes := Some [CHR ''a'', backslash, CHR ''b'']\<rparr>"

definition noted_shop :: db where
  "noted_shop = \<lparr>items = [noted], inventory_onhand = [0 \<mapsto> 1], inventory_events = [],
     next_item_id = 1, db_engine = utc_engine\<rparr>"

definition backslash_underscore :: query where
  "backslash_underscore = [''q'' \<mapsto> QString [backslash, CHR ''_'']]"




text \<open>The dialog open on \<open>widget\<close> with 3 on hand, and the form filled in by the operator.\<close>

definition confirming :: app_state where
  "confirming = \<lparr>app_mode = ModeRemove, toast = Text ''Confirm removal'', scanInput = ''X1'',
     confirmRemove = Some (initiate_columns widget, 3)\<rparr>"

definition filled_form :: confirm_form where
  "filled_form = \<lparr>orderId = ''SO-12345'', whereBought = ''Website'', dateSub = ''2025-06-01T10:00''\<rparr>"

section \<open>Basic facts about the statements\<close>

lemma falsy_Some [simp]: "falsy (Some s) = (s = [])"
  by (simp add: falsy_def)

lemma falsy_None [simp]: "falsy None"
  by (simp add: falsy_def)

lemma on_hand_of_ensure [simp]: "on_hand_of (ensureOnHandRow d i) j = on_hand_of d j"
  by (simp add: on_hand_of_def ensureOnHandRow_def split: option.splits)

lemma ensure_row_present:
  "inventory_onhand (ensureOnHandRow d i) i = Some (on_hand_of d i)"
  by (simp add: on_hand_of_def ensureOnHandRow_def split: option.splits)

lemma ensure_row_map:
  "inventory_onhand (ensureOnHandRow d i) = (inventory_onhand d)(i \<mapsto> on_hand_of d i)"
  by (auto simp: on_hand_of_def ensureOnHandRow_def split: option.splits)

lemma ensure_keeps_tables [simp]:
  "items (ensureOnHandRow d i) = items d"
  "inventory_events (ensureOnHandRow d i) = inventory_events d"
  "next_item_id (ensureOnHandRow d i) = next_item_id d"
  by (simp_all add: ensureOnHandRow_def split: option.splits)

section \<open>Catalog write: the inventory date\<close>

lemma post_items_store:
  "snd (post_items d body clock) =
     (if falsy (ib_ScannedCode body) \<or> falsy (ib_Model body) \<or> upsert_refused (db_engine d) body clock then d
      else ensureOnHandRow (fst (upsert_item d (excluded_row d body clock)))
             (item_id (snd (upsert_item d (excluded_row d body clock)))))"
  by (simp add: post_items_def Let_def case_prod_beta)

text \<open>
  Where the upsert does not throw, the inventory date of the proposed row is the
  engine's reading of \<^verbatim>\<open>$1\<close> and never \<^verbatim>\<open>NULL\<close>, so \<^verbatim>\<open>COALESCE\<close> never reaches the stored value.
\<close>

lemma excluded_date_never_null:
  "\<not> upsert_refused (db_engine d) body clock \<Longrightarrow> InventoryDate (excluded_row d body clock) \<noteq> None"
  by (simp add: excluded_row_def upsert_refused_def)

lemma update_takes_excluded_date:
  "InventoryDate x = Some t \<Longrightarrow> InventoryDate (do_update_set x old) = Some t"
  by (simp add: do_update_set_def)

text \<open>
  What the upsert returns for an existing scan code, whatever the request: every listed
  column comes from the request, and so does the inventory date.
\<close>

lemma post_items_existing:
  assumes "ib_ScannedCode body = Some code" and "code \<noteq> []"
    and "ib_Model body = Some m" and "m \<noteq> []"
    and "select_item d code = Some old"
    and "\<not> upsert_refused (db_engine d) body clock"
    and "inventory_date_in (db_engine d) (inventory_date_param body clock) = Some t"
  shows "fst (post_items d body clock) =
     (201, Inr (old\<lparr>InventoryDate := Some t,
                    Brand := ib_Brand body, Model := m, Size := ib_Size body,
                    Color := ib_Color body, Notes := ib_Notes body,
                    SoldOrder := ib_SoldOrder body, PurchasedFrom := ib_PurchasedFrom body,
                    PaintThickness := numeric_param (ib_PaintThickness body),
                    Price := numeric_param (ib_Price body),
                    Qty := numeric_param (ib_Qty body)\<rparr>))"
  using assms
  by (simp add: post_items_def Let_def upsert_item_def excluded_row_def do_update_set_def)

text \<open>The row the catalog holds for the scan code after the write.\<close>

lemma do_update_set_code [simp]: "ScannedCode (do_update_set x r) = ScannedCode r"
  by (simp add: do_update_set_def)

lemma find_after_update:
  "find (\<lambda>r. ScannedCode r = code) rows = Some old \<Longrightarrow>
   find (\<lambda>r. ScannedCode r = code)
     (map (\<lambda>r. if ScannedCode r = code then do_update_set x r else r) rows)
   = Some (do_update_set x old)"
  by (induction rows) (auto split: if_splits)

lemma post_items_stored:
  assumes "ib_ScannedCode body = Some code" and "code \<noteq> []"
    and "ib_Model body = Some m" and "m \<noteq> []"
    and "select_item d code = Some old"
    and "\<not> upsert_refused (db_engine d) body clock"
  shows "select_item (snd (post_items d body clock)) code =
           Some (do_update_set (excluded_row d body clock) old)"
proof -
  have c: "ScannedCode (excluded_row d body clock) = code"
    using assms by (simp add: excluded_row_def)
  show ?thesis
    using assms find_after_update [of code "items d" old "excluded_row d body clock"]
    by (simp add: post_items_store upsert_item_def c select_item_def)
qed

text \<open>
  C5. The claim asks that a catalog write without \<^verbatim>\<open>InventoryDate\<close> keeps the stored date.
  On the store that holds \<open>widget\<close>, dated 2024-01-01, the write \<open>rewrite_X1\<close> sends no date
  and is handled at 2025-06-01: the other columns take the incoming values, and the stored
  date becomes the handler's clock reading, not the prior value.
\<close>

theorem catalog_write_replaces_date:
  "ib_InventoryDate rewrite_X1 = None \<and>
   select_item (shop 1) ''X1'' = Some widget \<and>
   InventoryDate widget = Some ''2024-01-01T00:00:00.000Z'' \<and>
   select_item (snd (post_items (shop 1) rewrite_X1 ''2025-06-01T12:00:00.000Z'')) ''X1'' =
     Some (widget\<lparr>InventoryDate := Some ''2025-06-01T12:00:00.000Z'', Brand := Some ''Acme'',
             Model := ''Widget 2'', Color := Some ''Blue'', Price := Some ''12.5''\<rparr>)"
  by code_simp

section \<open>Properties of the stock mutation handlers\<close>

lemma initiate_on_hand_of: "on_hand_of (snd (remove_initiate d body)) i = on_hand_of d i"
  by (simp add: remove_initiate_def ensure_row_present Let_def split: option.splits)

lemma initiate_times_on_hand_of: "on_hand_of (initiate_times n d body) i = on_hand_of d i"
  by (induction n) (simp_all add: initiate_times_def initiate_on_hand_of)

text \<open>
  C10. A request to \<^verbatim>\<open>/inventory/add\<close>, \<^verbatim>\<open>/inventory/remove/initiate\<close> or
  \<^verbatim>\<open>/inventory/remove/confirm\<close> whose body has no barcode (absent or empty) is answered
  with 400 \<^verbatim>\<open>MISSING_BARCODE\<close> whatever the store holds, and the store (catalog, ledger,
  event log) is returned as it was.
\<close>

theorem missing_barcode_rejected:
  "(barcode body = None \<or> barcode body = Some [] \<longrightarrow>
      inventory_add d body = ((400, Inl MISSING_BARCODE), d) \<and>
      remove_initiate d body = ((400, Inl MISSING_BARCODE), d)) \<and>
   (cb_barcode cbody = None \<or> cb_barcode cbody = Some [] \<longrightarrow>
      remove_confirm d cbody now = ((400, Inl MISSING_BARCODE), d))"
  by (auto simp: inventory_add_def remove_initiate_def remove_confirm_def)

text \<open>
  C1. When the ledger row of the scanned item holds a quantity of 0 or less at the time
  confirm reads it under the row lock, confirm answers 409 \<^verbatim>\<open>OUT_OF_STOCK\<close> and rolls
  back: the whole store, so the on-hand quantity and the event log, is as before the call.
\<close>

theorem confirm_out_of_stock:
  assumes "cb_barcode body = Some code" and "code \<noteq> []"
    and "select_item d code = Some it"
    and "inventory_onhand d (item_id it) = Some q" and "q \<le> 0"
  shows "remove_confirm d body now = ((409, Inl (OUT_OF_STOCK 0)), d)"
  using assms by (simp add: remove_confirm_def)

text \<open>Facts about the engine's part in the statements: no statement changes the engine.\<close>

lemma engine_kept [simp]:
  "db_engine (update_on_hand d i k) = db_engine d"
  "db_engine (ensureOnHandRow d i) = db_engine d"
  "db_engine (insert_event d ev) = db_engine d"
  by (simp_all add: update_on_hand_def ensureOnHandRow_def insert_event_def split: option.splits)

text \<open>Confirm on an item in stock: the two ways it can end.\<close>

lemma confirm_removed:
  assumes "cb_barcode body = Some code" and "code \<noteq> []"
    and "select_item d code = Some it"
    and "inventory_onhand d (item_id it) = Some q" and "0 < q"
    and "\<not> insert_refused (db_engine d) body"
  shows "remove_confirm d body now =
     ((200, Inr (REMOVED, q - 1,
         \<lparr>ev_item_id = item_id it, ev_action = ActRemove, ev_qty = 1,
          ev_order_id = cb_order_id body, ev_where_bought_from = cb_where_bought_from body,
          ev_date_subtracted =
            Some (date_subtracted_value (db_engine d) (cb_date_subtracted body) now)\<rparr>)),
      d\<lparr>inventory_onhand := (inventory_onhand d)(item_id it \<mapsto> q - 1),
        inventory_events := inventory_events d @
          [\<lparr>ev_item_id = item_id it, ev_action = ActRemove, ev_qty = 1,
            ev_order_id = cb_order_id body, ev_where_bought_from = cb_where_bought_from body,
            ev_date_subtracted =
              Some (date_subtracted_value (db_engine d) (cb_date_subtracted body) now)\<rparr>]\<rparr>)"
  using assms
  by (simp add: remove_confirm_def Let_def) (simp add: update_on_hand_def insert_event_def)

lemma confirm_insert_refused:
  assumes "cb_barcode body = Some code" and "code \<noteq> []"
    and "select_item d code = Some it"
    and "inventory_onhand d (item_id it) = Some q" and "0 < q"
    and "insert_refused (db_engine d) body"
  shows "remove_confirm d body now = ((500, Inl SERVER_ERROR), d)"
  using assms by (simp add: remove_confirm_def Let_def)

lemma initiate_with_row:
  assumes "code \<noteq> []" and "select_item d code = Some it"
    and "inventory_onhand d (item_id it) = Some q"
  shows "snd (remove_initiate d \<lparr>barcode = Some code\<rparr>) = d"
  using assms by (simp add: remove_initiate_def ensureOnHandRow_def Let_def)

text \<open>
  C9, as claimed, fails: confirm does not succeed for every call on an item in stock. On
  the store with 3 units of \<open>widget\<close>, the call whose \<^verbatim>\<open>Date Subtracted\<close> is the empty text
  reaches the event insert, the cast \<^verbatim>\<open>$4::timestamptz\<close> fails, and the \<^verbatim>\<open>catch\<close> branch rolls
  back and answers 500: the quantity is still 3 and the log is still empty.
\<close>

theorem confirm_bad_date_counterexample:
  "cb_barcode confirm_X1_empty_date = Some ''X1'' \<and>
   cb_date_subtracted confirm_X1_empty_date = Some [] \<and>
   select_item (shop 3) ''X1'' = Some widget \<and>
   inventory_onhand (shop 3) (item_id widget) = Some 3 \<and>
   fst (remove_confirm (shop 3) confirm_X1_empty_date ''2025-06-01T12:05:00.000Z'') =
     (500, Inl SERVER_ERROR) \<and>
   inventory_onhand (snd (remove_confirm (shop 3) confirm_X1_empty_date
     ''2025-06-01T12:05:00.000Z'')) (item_id widget) = Some 3 \<and>
   inventory_events (snd (remove_confirm (shop 3) confirm_X1_empty_date
     ''2025-06-01T12:05:00.000Z'')) = []"
  by code_simp

text \<open>
  C9, amended. Confirm needs no earlier initiate. The store has no table or field that
  records an initiate call, and confirm reads nothing but the catalog and the ledger.
  For an item whose on-hand quantity is \<open>q > 0\<close>, a call whose metadata the engine takes
  (order reference and source without U+0000, \<^verbatim>\<open>Date Subtracted\<close> absent or a text the
  engine can cast to a timestamp) is answered 200 \<^verbatim>\<open>REMOVED\<close> with \<open>q - 1\<close>, stores
  \<open>q - 1\<close> and appends one remove event; a call whose metadata the engine refuses is
  answered 500 and changes nothing. Either way confirm does exactly the same when an
  initiate call for the item went before.
\<close>

theorem confirm_without_initiate:
  assumes "cb_barcode body = Some code" and "code \<noteq> []"
    and "select_item d code = Some it"
    and "inventory_onhand d (item_id it) = Some q" and "0 < q"
  shows "(\<not> insert_refused (db_engine d) body \<longrightarrow>
            (\<exists>ev. ev_item_id ev = item_id it \<and> ev_action ev = ActRemove \<and>
               remove_confirm d body now =
                 ((200, Inr (REMOVED, q - 1, ev)),
                  d\<lparr>inventory_onhand := (inventory_onhand d)(item_id it \<mapsto> q - 1),
                    inventory_events := inventory_events d @ [ev]\<rparr>))) \<and>
         (insert_refused (db_engine d) body \<longrightarrow>
            remove_confirm d body now = ((500, Inl SERVER_ERROR), d)) \<and>
         remove_confirm (snd (remove_initiate d \<lparr>barcode = Some code\<rparr>)) body now =
           remove_confirm d body now"
proof (intro conjI impI)
  assume "\<not> insert_refused (db_engine d) body"
  from confirm_removed [OF assms this, of now]
  show "\<exists>ev. ev_item_id ev = item_id it \<and> ev_action ev = ActRemove \<and>
          remove_confirm d body now =
            ((200, Inr (REMOVED, q - 1, ev)),
             d\<lparr>inventory_onhand := (inventory_onhand d)(item_id it \<mapsto> q - 1),
               inventory_events := inventory_events d @ [ev]\<rparr>)"
    by (intro exI [of _ "\<lparr>ev_item_id = item_id it, ev_action = ActRemove, ev_qty = 1,
          ev_order_id = cb_order_id body, ev_where_bought_from = cb_where_bought_from body,
          ev_date_subtracted =
            Some (date_subtracted_value (db_engine d) (cb_date_subtracted body) now)\<rparr>"])
       simp
next
  assume "insert_refused (db_engine d) body"
  from confirm_insert_refused [OF assms this]
  show "remove_confirm d body now = ((500, Inl SERVER_ERROR), d)" .
next
  show "remove_confirm (snd (remove_initiate d \<lparr>barcode = Some code\<rparr>)) body now =
          remove_confirm d body now"
    by (simp only: initiate_with_row [OF assms(2,3,4)])
qed

text \<open>
  C4. Initiate never changes an on-hand quantity, however often it is called without a
  confirm; for an existing item it leaves catalog and event log alone and touches the
  ledger only to create the item's row at 0 when there is none. Its reply is
  \<^verbatim>\<open>CONFIRM_REQUIRED\<close> with the item and the quantity exactly when the quantity is above 0,
  and \<^verbatim>\<open>REGISTERED_ZERO_STOCK\<close> when the quantity is 0.
\<close>

theorem initiate_reads_only:
  assumes "barcode body = Some code" and "code \<noteq> []"
    and "select_item d code = Some it"
  shows "(\<forall>n i. on_hand_of (initiate_times n d body) i = on_hand_of d i) \<and>
         items (snd (remove_initiate d body)) = items d \<and>
         inventory_events (snd (remove_initiate d body)) = inventory_events d \<and>
         inventory_onhand (snd (remove_initiate d body)) =
           (case inventory_onhand d (item_id it) of
              None \<Rightarrow> (inventory_onhand d)(item_id it \<mapsto> 0)
            | Some q \<Rightarrow> inventory_onhand d) \<and>
         (fst (remove_initiate d body) =
            (200, Inr (CONFIRM_REQUIRED, initiate_columns it, on_hand_of d (item_id it)))
          \<longleftrightarrow> 0 < on_hand_of d (item_id it)) \<and>
         (on_hand_of d (item_id it) = 0 \<longrightarrow>
            fst (remove_initiate d body) =
              (200, Inr (REGISTERED_ZERO_STOCK, initiate_columns it, 0)))"
proof -
  have ledger: "inventory_onhand (snd (remove_initiate d body)) =
           (case inventory_onhand d (item_id it) of
              None \<Rightarrow> (inventory_onhand d)(item_id it \<mapsto> 0)
            | Some q \<Rightarrow> inventory_onhand d)"
    using assms
    by (simp add: remove_initiate_def ensure_row_present Let_def)
       (simp add: ensureOnHandRow_def split: option.splits)
  have tables: "items (snd (remove_initiate d body)) = items d"
      "inventory_events (snd (remove_initiate d body)) = inventory_events d"
    using assms by (simp_all add: remove_initiate_def ensure_row_present Let_def)
  have reply: "fst (remove_initiate d body) =
      (if 0 < on_hand_of d (item_id it)
       then (200, Inr (CONFIRM_REQUIRED, initiate_columns it, on_hand_of d (item_id it)))
       else (200, Inr (REGISTERED_ZERO_STOCK, initiate_columns it, 0)))"
    using assms by (simp add: remove_initiate_def ensure_row_present Let_def)
  show ?thesis
    using ledger tables by (simp add: reply initiate_times_on_hand_of)
qed

text \<open>The four theorems above on the store that holds \<open>widget\<close> alone.\<close>

lemma shop_select: "select_item (shop q) ''X1'' = Some widget"
  by (simp add: select_item_def shop_def widget_def)

lemma shop_ledger: "inventory_onhand (shop q) (item_id widget) = Some q"
  by (simp add: shop_def widget_def)

theorem missing_barcode_rejected_witness:
  "(barcode \<lparr>barcode = None\<rparr> = None \<or> barcode \<lparr>barcode = None\<rparr> = Some []) \<and>
   inventory_add (shop 2) \<lparr>barcode = None\<rparr> = ((400, Inl MISSING_BARCODE), shop 2) \<and>
   remove_initiate (shop 2) \<lparr>barcode = None\<rparr> = ((400, Inl MISSING_BARCODE), shop 2) \<and>
   (cb_barcode (confirm_X1\<lparr>cb_barcode := Some []\<rparr>) = None \<or>
    cb_barcode (confirm_X1\<lparr>cb_barcode := Some []\<rparr>) = Some []) \<and>
   remove_confirm (shop 2) (confirm_X1\<lparr>cb_barcode := Some []\<rparr>) ''2025-06-01T12:05:00.000Z''
     = ((400, Inl MISSING_BARCODE), shop 2)"
  using missing_barcode_rejected [of "\<lparr>barcode = None\<rparr>" "shop 2"
      "confirm_X1\<lparr>cb_barcode := Some []\<rparr>" "''2025-06-01T12:05:00.000Z''"]
  by simp

theorem confirm_out_of_stock_witness:
  "cb_barcode confirm_X1 = Some ''X1'' \<and> ''X1'' \<noteq> [] \<and>
   select_item (shop 0) ''X1'' = Some widget \<and>
   inventory_onhand (shop 0) (item_id widget) = Some 0 \<and> (0::int) \<le> 0 \<and>
   remove_confirm (shop 0) confirm_X1 ''2025-06-01T12:05:00.000Z'' = ((409, Inl (OUT_OF_STOCK 0)), shop 0)"
proof -
  have b: "cb_barcode confirm_X1 = Some ''X1''" by (simp add: confirm_X1_def)
  have c: "''X1'' \<noteq> []" by simp
  show ?thesis
    using b c shop_select [of 0] shop_ledger [of 0]
      confirm_out_of_stock [OF b c shop_select shop_ledger, of 0 "''2025-06-01T12:05:00.000Z''"]
    by simp
qed

theorem confirm_without_initiate_witness:
  "cb_barcode confirm_X1 = Some ''X1'' \<and> ''X1'' \<noteq> [] \<and>
   select_item (shop 3) ''X1'' = Some widget \<and>
   inventory_onhand (shop 3) (item_id widget) = Some 3 \<and> (0::int) < 3 \<and>
   \<not> insert_refused (db_engine (shop 3)) confirm_X1 \<and>
   fst (remove_confirm (shop 3) confirm_X1 ''2025-06-01T12:05:00.000Z'') =
     (200, Inr (REMOVED, 2,
        \<lparr>ev_item_id = 0, ev_action = ActRemove, ev_qty = 1, ev_order_id = Some ''SO-12345'',
         ev_where_bought_from = None, ev_date_subtracted = Some ''2025-06-01T12:05:00.000Z''\<rparr>)) \<and>
   inventory_onhand (snd (remove_confirm (shop 3) confirm_X1 ''2025-06-01T12:05:00.000Z'')) 0 = Some 2 \<and>
   insert_refused (db_engine (shop 3)) confirm_X1_empty_date \<and>
   remove_confirm (shop 3) confirm_X1_empty_date ''2025-06-01T12:05:00.000Z'' =
     ((500, Inl SERVER_ERROR), shop 3) \<and>
   remove_confirm (snd (remove_initiate (shop 3) \<lparr>barcode = Some ''X1''\<rparr>)) confirm_X1 ''2025-06-01T12:05:00.000Z''
     = remove_confirm (shop 3) confirm_X1 ''2025-06-01T12:05:00.000Z''"
proof -
  have b: "cb_barcode confirm_X1 = Some ''X1''" by (simp add: confirm_X1_def)
  have b': "cb_barcode confirm_X1_empty_date = Some ''X1''"
    by (simp add: confirm_X1_empty_date_def confirm_X1_def)
  have c: "''X1'' \<noteq> []" by simp
  have p: "(0::int) < 3" by simp
  have ok: "\<not> insert_refused (db_engine (shop 3)) confirm_X1" by code_simp
  have bad: "insert_refused (db_engine (shop 3)) confirm_X1_empty_date" by code_simp
  have r1: "fst (remove_confirm (shop 3) confirm_X1 ''2025-06-01T12:05:00.000Z'') =
     (200, Inr (REMOVED, 2,
        \<lparr>ev_item_id = 0, ev_action = ActRemove, ev_qty = 1, ev_order_id = Some ''SO-12345'',
         ev_where_bought_from = None, ev_date_subtracted = Some ''2025-06-01T12:05:00.000Z''\<rparr>))"
    by code_simp
  have r2: "inventory_onhand (snd (remove_confirm (shop 3) confirm_X1 ''2025-06-01T12:05:00.000Z'')) 0 = Some 2"
    by code_simp
  note at_ok = confirm_without_initiate [OF b c shop_select shop_ledger p,
      of "''2025-06-01T12:05:00.000Z''"]
  note at_bad = confirm_without_initiate [OF b' c shop_select shop_ledger p,
      of "''2025-06-01T12:05:00.000Z''"]
  from at_ok have same: "remove_confirm (snd (remove_initiate (shop 3) \<lparr>barcode = Some ''X1''\<rparr>))
        confirm_X1 ''2025-06-01T12:05:00.000Z'' = remove_confirm (shop 3) confirm_X1 ''2025-06-01T12:05:00.000Z''"
    by blast
  from at_bad bad have refused: "remove_confirm (shop 3) confirm_X1_empty_date
      ''2025-06-01T12:05:00.000Z'' = ((500, Inl SERVER_ERROR), shop 3)"
    by blast
  from b c p shop_select [of 3] shop_ledger [of 3] ok r1 r2 bad refused same show ?thesis
    by (intro conjI)
qed

theorem initiate_reads_only_witness:
  "barcode scan_X1 = Some ''X1'' \<and> ''X1'' \<noteq> [] \<and> select_item (shop 2) ''X1'' = Some widget \<and>
   on_hand_of (initiate_times 5 (shop 2) scan_X1) 0 = 2 \<and>
   fst (remove_initiate (shop 2) scan_X1) = (200, Inr (CONFIRM_REQUIRED, initiate_columns widget, 2)) \<and>
   snd (remove_initiate (shop 2) scan_X1) = shop 2"
proof -
  have b: "barcode scan_X1 = Some ''X1''" by (simp add: scan_X1_def)
  have c: "''X1'' \<noteq> []" by simp
  have q: "on_hand_of (shop 2) 0 = 2" by (simp add: on_hand_of_def shop_def)
  have w: "item_id widget = 0" by (simp add: widget_def)
  have ledger: "inventory_onhand (snd (remove_initiate (shop 2) scan_X1)) = inventory_onhand (shop 2)"
    using initiate_reads_only [OF b c shop_select, of 2] by (simp add: shop_ledger)
  have "snd (remove_initiate (shop 2) scan_X1) = shop 2"
    using initiate_reads_only [OF b c shop_select, of 2] ledger
    by (simp add: remove_initiate_def scan_X1_def shop_select Let_def ensureOnHandRow_def
        shop_ledger)
  then show ?thesis
    using b c shop_select [of 2] initiate_reads_only [OF b c shop_select, of 2]
    by (simp add: q w)
qed

section \<open>The ledger never goes negative\<close>

lemma nonneg_ensure: "ledger_nonneg d \<Longrightarrow> ledger_nonneg (ensureOnHandRow d i)"
  by (auto simp: ledger_nonneg_def ensureOnHandRow_def split: option.splits)

lemma upsert_ledger: "inventory_onhand (fst (upsert_item d x)) = inventory_onhand d"
  by (simp add: upsert_item_def split: option.splits)

lemma nonneg_upsert: "ledger_nonneg d \<Longrightarrow> ledger_nonneg (fst (upsert_item d x))"
  by (simp add: ledger_nonneg_def upsert_ledger)

lemma nonneg_post_items: "ledger_nonneg d \<Longrightarrow> ledger_nonneg (snd (post_items d body clock))"
  by (simp add: post_items_store nonneg_ensure nonneg_upsert)

lemma nonneg_add: "ledger_nonneg d \<Longrightarrow> ledger_nonneg (snd (inventory_add d body))"
  by (auto simp: inventory_add_def Let_def ledger_nonneg_def insert_event_def update_on_hand_def
      ensureOnHandRow_def split: option.splits if_splits)

lemma nonneg_initiate: "ledger_nonneg d \<Longrightarrow> ledger_nonneg (snd (remove_initiate d body))"
  by (auto simp: remove_initiate_def Let_def ledger_nonneg_def ensureOnHandRow_def
      split: option.splits if_splits)

lemma nonneg_confirm: "ledger_nonneg d \<Longrightarrow> ledger_nonneg (snd (remove_confirm d body now))"
  by (auto simp: remove_confirm_def Let_def ledger_nonneg_def insert_event_def update_on_hand_def
      split: option.splits if_splits)

lemma nonneg_step: "ledger_nonneg d \<Longrightarrow> ledger_nonneg (step d c)"
  by (cases c) (simp_all add: nonneg_post_items nonneg_add nonneg_initiate nonneg_confirm)

lemma nonneg_run: "ledger_nonneg d \<Longrightarrow> ledger_nonneg (run d cs)"
  by (induction cs arbitrary: d) (simp_all add: nonneg_step)

lemma nonneg_empty: "ledger_nonneg empty_db"
  by (simp add: ledger_nonneg_def empty_db_def)

text \<open>
  C2. No ledger row is negative in any store reached by add, initiate, confirm and
  catalog-write calls, in any number and order, from the empty store or from any store
  whose rows are not negative: a new row starts at 0, add only increments, and confirm
  decrements only a quantity above 0.
\<close>

theorem on_hand_never_negative:
  "ledger_nonneg empty_db \<and> (ledger_nonneg d \<longrightarrow> ledger_nonneg (run d cs))"
  by (simp add: nonneg_empty nonneg_run)

text \<open>The scenario of the specification, and a second confirm after it, refused at 0.\<close>

theorem on_hand_never_negative_witness:
  "ledger_nonneg empty_db \<and> ledger_nonneg (run empty_db scenario) \<and>
   inventory_onhand (run empty_db scenario) 0 = Some 0 \<and>
   inventory_onhand (run empty_db (scenario @ [ConfirmRemove confirm_X1 ''2025-06-01T12:06:00.000Z''])) 0
     = Some 0"
proof -
  have a: "inventory_onhand (run empty_db scenario) 0 = Some 0"
    by code_simp
  have b: "inventory_onhand
      (run empty_db (scenario @ [ConfirmRemove confirm_X1 ''2025-06-01T12:06:00.000Z''])) 0 = Some 0"
    by code_simp
  from on_hand_never_negative [of empty_db scenario] a b show ?thesis
    by simp
qed

section \<open>Adds and confirms balance\<close>

lemma add_effect:
  assumes "barcode body = Some code" and "code \<noteq> []" and "select_item d code = Some it"
  shows "status d (AddOne body) = 201"
    and "items (step d (AddOne body)) = items d"
    and "on_hand_of (step d (AddOne body)) (item_id it) = on_hand_of d (item_id it) + 1"
    and "count_events (step d (AddOne body)) (item_id it) ActAdd
           = Suc (count_events d (item_id it) ActAdd)"
    and "count_events (step d (AddOne body)) (item_id it) ActRemove
           = count_events d (item_id it) ActRemove"
  using assms
  by (simp_all add: inventory_add_def Let_def insert_event_def update_on_hand_def
      ensure_row_present on_hand_of_def count_events_def)

lemma confirm_effect_removed:
  assumes "cb_barcode body = Some code" and "code \<noteq> []" and "select_item d code = Some it"
    and "0 < on_hand_of d (item_id it) \<and> \<not> insert_refused (db_engine d) body"
  shows "status d (ConfirmRemove body now) = 200"
    and "items (step d (ConfirmRemove body now)) = items d"
    and "on_hand_of (step d (ConfirmRemove body now)) (item_id it) = on_hand_of d (item_id it) - 1"
    and "count_events (step d (ConfirmRemove body now)) (item_id it) ActAdd
           = count_events d (item_id it) ActAdd"
    and "count_events (step d (ConfirmRemove body now)) (item_id it) ActRemove
           = Suc (count_events d (item_id it) ActRemove)"
  using assms
  by (simp_all add: remove_confirm_def Let_def insert_event_def update_on_hand_def
      on_hand_of_def count_events_def split: option.splits)

text \<open>A confirm that is refused (409) or whose insert throws (500) leaves the store as it was.\<close>

lemma confirm_effect_refused:
  assumes "cb_barcode body = Some code" and "code \<noteq> []" and "select_item d code = Some it"
    and "\<not> (0 < on_hand_of d (item_id it) \<and> \<not> insert_refused (db_engine d) body)"
  shows "\<not> status d (ConfirmRemove body now) < 300"
    and "step d (ConfirmRemove body now) = d"
  using assms
  by (auto simp: remove_confirm_def Let_def on_hand_of_def split: option.splits)

lemma stock_run:
  assumes "select_item d code = Some it" and "code \<noteq> []"
    and "\<forall>c \<in> set cs. stock_call_for code c"
  shows "on_hand_of (run d cs) (item_id it) =
           on_hand_of d (item_id it) + int (successes is_add d cs) - int (successes is_confirm d cs) \<and>
         count_events (run d cs) (item_id it) ActAdd =
           count_events d (item_id it) ActAdd + successes is_add d cs \<and>
         count_events (run d cs) (item_id it) ActRemove =
           count_events d (item_id it) ActRemove + successes is_confirm d cs \<and>
         successes is_add d cs = length (filter is_add cs)"
  using assms
proof (induction cs arbitrary: d)
  case Nil
  then show ?case by simp
next
  case (Cons c cs)
  from Cons.prems have target: "stock_call_for code c"
    and rest: "\<forall>c \<in> set cs. stock_call_for code c" by simp_all
  show ?case
  proof (cases c)
    case (AddOne body)
    with target have b: "barcode body = Some code" by simp
    note eff = add_effect [OF b Cons.prems(2) Cons.prems(1)]
    have sel: "select_item (step d (AddOne body)) code = Some it"
      using eff(2) Cons.prems(1) by (simp add: select_item_def)
    from Cons.IH [OF sel Cons.prems(2) rest] show ?thesis
      using eff by (simp add: AddOne)
  next
    case (ConfirmRemove body now)
    with target have b: "cb_barcode body = Some code" by simp
    show ?thesis
    proof (cases "0 < on_hand_of d (item_id it) \<and> \<not> insert_refused (db_engine d) body")
      case True
      note eff = confirm_effect_removed [OF b Cons.prems(2) Cons.prems(1) True]
      have sel: "select_item (step d (ConfirmRemove body now)) code = Some it"
        using eff(2) Cons.prems(1) by (simp add: select_item_def)
      from Cons.IH [OF sel Cons.prems(2) rest] show ?thesis
        using eff by (simp add: ConfirmRemove)
    next
      case False
      note eff = confirm_effect_refused [OF b Cons.prems(2) Cons.prems(1) False]
      from Cons.IH [OF Cons.prems(1) Cons.prems(2) rest] show ?thesis
        using eff by (simp add: ConfirmRemove)
    qed
  next
    case (PostItems body clock)
    with target show ?thesis by simp
  next
    case (InitiateRemove body)
    with target show ?thesis by simp
  qed
qed

text \<open>
  C3. Take an item that is fresh (on-hand quantity 0, no event of its own in the log) and
  run add and confirm calls for its scan code one after the other, in any order. With
  \<open>N\<close> the number of add calls answered 2xx (all of them are) and \<open>M\<close> the number of
  confirm calls answered 2xx, the item's on-hand quantity is \<open>N - M\<close> and the log holds
  exactly \<open>N\<close> add events and \<open>M\<close> remove events for it.
\<close>

theorem add_confirm_balance:
  assumes "select_item d code = Some it" and "code \<noteq> []"
    and "on_hand_of d (item_id it) = 0"
    and "count_events d (item_id it) ActAdd = 0" and "count_events d (item_id it) ActRemove = 0"
    and "\<forall>c \<in> set cs. stock_call_for code c"
  shows "on_hand_of (run d cs) (item_id it) =
           int (successes is_add d cs) - int (successes is_confirm d cs) \<and>
         count_events (run d cs) (item_id it) ActAdd = successes is_add d cs \<and>
         count_events (run d cs) (item_id it) ActRemove = successes is_confirm d cs \<and>
         successes is_add d cs = length (filter is_add cs)"
  using stock_run [OF assms(1,2,6)] assms(3,4,5) by simp

text \<open>Two adds and one confirm on the fresh \<open>widget\<close>: one unit, two add events, one remove event.\<close>

theorem add_confirm_balance_witness:
  "select_item (shop 0) ''X1'' = Some widget \<and> ''X1'' \<noteq> [] \<and>
   on_hand_of (shop 0) (item_id widget) = 0 \<and>
   count_events (shop 0) (item_id widget) ActAdd = 0 \<and>
   count_events (shop 0) (item_id widget) ActRemove = 0 \<and>
   list_all (stock_call_for ''X1'') two_adds_one_confirm \<and>
   successes is_add (shop 0) two_adds_one_confirm = 2 \<and>
   successes is_confirm (shop 0) two_adds_one_confirm = 1 \<and>
   on_hand_of (run (shop 0) two_adds_one_confirm) (item_id widget) = 1 \<and>
   count_events (run (shop 0) two_adds_one_confirm) (item_id widget) ActAdd = 2 \<and>
   count_events (run (shop 0) two_adds_one_confirm) (item_id widget) ActRemove = 1"
proof -
  have c: "''X1'' \<noteq> []" by simp
  have q: "on_hand_of (shop 0) (item_id widget) = 0" by code_simp
  have a: "count_events (shop 0) (item_id widget) ActAdd = 0" by code_simp
  have r: "count_events (shop 0) (item_id widget) ActRemove = 0" by code_simp
  have t: "list_all (stock_call_for ''X1'') two_adds_one_confirm" by code_simp
  then have t': "\<forall>c \<in> set two_adds_one_confirm. stock_call_for ''X1'' c"
    by (simp add: list_all_iff)
  have n: "successes is_add (shop 0) two_adds_one_confirm = 2" by code_simp
  have m: "successes is_confirm (shop 0) two_adds_one_confirm = 1" by code_simp
  from add_confirm_balance [OF shop_select c q a r t'] n m c q a r t shop_select [of 0]
  show ?thesis by simp
qed

section \<open>Search and facets: unknown field names\<close>





text \<open>
  A field name that \<^verbatim>\<open>FIELD_MAP\<close> inherits passes the handler's test and ends in the
  \<^verbatim>\<open>catch\<close> branch.
\<close>

lemma distinct_inherited_property:
  "items_distinct d [''field'' \<mapsto> QString ''constructor''] = (500, Inl SERVER_ERROR)"
proof -
  have "field_map_get (fieldParam [''field'' \<mapsto> QString ''constructor'']) = Inherited"
    by code_simp
  then show ?thesis by (simp add: items_distinct_def)
qed

section \<open>Search: the free-text pattern\<close>

lemma starts_with_iff: "starts_with s q \<longleftrightarrow> (\<exists>t. s = q @ t)"
  by (induction s q rule: starts_with.induct) auto

lemma contains_iff: "contains s q \<longleftrightarrow> (\<exists>a t. s = a @ q @ t)"
proof (induction s)
  case Nil
  then show ?case by simp
next
  case (Cons c cs)
  show ?case
  proof
    assume "contains (c # cs) q"
    then consider "starts_with (c # cs) q" | "contains cs q" by auto
    then show "\<exists>a t. c # cs = a @ q @ t"
    proof cases
      case 1
      then obtain t where "c # cs = q @ t" by (auto simp: starts_with_iff)
      then have "c # cs = [] @ q @ t" by simp
      then show ?thesis by blast
    next
      case 2
      with Cons.IH obtain a t where "cs = a @ q @ t" by blast
      then have "c # cs = (c # a) @ q @ t" by simp
      then show ?thesis by blast
    qed
  next
    assume "\<exists>a t. c # cs = a @ q @ t"
    then obtain a t where eq: "c # cs = a @ q @ t" by blast
    show "contains (c # cs) q"
    proof (cases a)
      case Nil
      with eq have "starts_with (c # cs) q" by (auto simp: starts_with_iff)
      then show ?thesis by simp
    next
      case (Cons x xs)
      with eq have "cs = xs @ q @ t" by simp
      with Cons.IH have "contains cs q" by blast
      then show ?thesis by simp
    qed
  qed
qed

lemma like_percent_all: "like_match [CHR ''%''] s"
  by (induction s) simp_all

lemma like_percent: "like_match (CHR ''%'' # p) s \<longleftrightarrow> (\<exists>a b. s = a @ b \<and> like_match p b)"
proof (induction s)
  case Nil
  then show ?case by simp
next
  case (Cons c cs)
  show ?case
  proof
    assume "like_match (CHR ''%'' # p) (c # cs)"
    then consider "like_match p (c # cs)" | "like_match (CHR ''%'' # p) cs" by auto
    then show "\<exists>a b. c # cs = a @ b \<and> like_match p b"
    proof cases
      case 1
      then have "c # cs = [] @ (c # cs) \<and> like_match p (c # cs)" by simp
      then show ?thesis by blast
    next
      case 2
      with Cons.IH obtain a b where "cs = a @ b" "like_match p b" by blast
      then have "c # cs = (c # a) @ b \<and> like_match p b" by simp
      then show ?thesis by blast
    qed
  next
    assume "\<exists>a b. c # cs = a @ b \<and> like_match p b"
    then obtain a b where eq: "c # cs = a @ b" and m: "like_match p b" by blast
    show "like_match (CHR ''%'' # p) (c # cs)"
    proof (cases a)
      case Nil
      with eq m show ?thesis by simp
    next
      case (Cons x xs)
      with eq have "cs = xs @ b" by simp
      with m Cons.IH have "like_match (CHR ''%'' # p) cs" by blast
      then show ?thesis by simp
    qed
  qed
qed

lemma backslash_neq [simp]: "backslash \<noteq> CHR ''%''" "backslash \<noteq> CHR ''_''"
  by (simp_all add: backslash_def)

lemma like_escaped:
  "backslash \<notin> set q \<Longrightarrow>
   like_match (escape_like q @ rest) s \<longleftrightarrow> (\<exists>t. s = q @ t \<and> like_match rest t)"
proof (induction q arbitrary: s)
  case Nil
  then show ?case by simp
next
  case (Cons c cs)
  then have nb: "c \<noteq> backslash" and rest: "backslash \<notin> set cs" by auto
  show ?case
  proof (cases s)
    case Nil
    with nb show ?thesis by simp
  next
    case (Cons x xs)
    with nb Cons.IH [OF rest, of xs] show ?thesis by auto
  qed
qed

lemma pattern_is_substring:
  assumes "backslash \<notin> set r"
  shows "like_match (CHR ''%'' # escape_like r @ [CHR ''%'']) s \<longleftrightarrow> contains s r"
proof -
  have "like_match (CHR ''%'' # escape_like r @ [CHR ''%'']) s \<longleftrightarrow>
          (\<exists>a b. s = a @ b \<and> like_match (escape_like r @ [CHR ''%'']) b)"
    by (rule like_percent)
  also have "\<dots> \<longleftrightarrow> (\<exists>a b. s = a @ b \<and> (\<exists>t. b = r @ t))"
    using assms by (simp only: like_escaped like_percent_all simp_thms)
  also have "\<dots> \<longleftrightarrow> contains s r"
    by (auto simp: contains_iff)
  finally show ?thesis .
qed

lemma of_char_lower:
  "of_char (lower_char c) = (if 65 \<le> (of_char c :: nat) \<and> (of_char c :: nat) \<le> 90 then of_char c + 32 else (of_char c :: nat))"
  by (simp add: lower_char_def less_eq_char_def)

lemma char_eq_iff_nat: "c = d \<longleftrightarrow> (of_char c :: nat) = of_char d"
  by (metis char_of_char)

lemma lower_char_meta:
  "lower_char c = CHR ''%'' \<longleftrightarrow> c = CHR ''%''"
  "lower_char c = CHR ''_'' \<longleftrightarrow> c = CHR ''_''"
  "lower_char c = backslash \<longleftrightarrow> c = backslash"
  unfolding char_eq_iff_nat [of "lower_char c"] char_eq_iff_nat [of c] of_char_lower backslash_def
  by simp_all

lemma lower_escape: "toLowerCase (escape_like r) = escape_like (toLowerCase r)"
  by (induction r) (auto simp: toLowerCase_def lower_char_meta)

lemma lower_backslash: "backslash \<notin> set r \<Longrightarrow> backslash \<notin> set (toLowerCase r)"
  by (induction r) (simp_all add: toLowerCase_def lower_char_meta(3) eq_commute [of backslash])

lemma lower_pattern:
  "toLowerCase (CHR ''%'' # escape_like r @ [CHR ''%'']) =
     CHR ''%'' # escape_like (toLowerCase r) @ [CHR ''%'']"
  using lower_escape [of r] lower_char_meta(1) [of "CHR ''%''"] by (simp add: toLowerCase_def)

lemma ilike_is_substring:
  assumes "backslash \<notin> set r"
  shows "ilike v (CHR ''%'' # escape_like r @ [CHR ''%'']) \<longleftrightarrow>
           (case v of None \<Rightarrow> False | Some s \<Rightarrow> contains (toLowerCase s) (toLowerCase r))"
  using pattern_is_substring [OF lower_backslash [OF assms]]
  by (simp add: ilike_def lower_pattern split: option.splits)

text \<open>
  For a search text without a backslash the statement computes what the specification
  says: the pattern matches a column exactly when the column contains the text, letter
  case aside, and \<^verbatim>\<open>%\<close> and \<^verbatim>\<open>_\<close> stand for themselves.
\<close>

lemma text_clause_is_substring:
  assumes "backslash \<notin> set r"
  shows "text_clause out (CHR ''%'' # escape_like r @ [CHR ''%'']) it \<longleftrightarrow>
           spec_text_match out r it"
  by (simp add: text_clause_def spec_text_match_def text_columns_def
      ilike_is_substring [OF assms])

text \<open>
  C7. The claim asks that \<^verbatim>\<open>%\<close> and \<^verbatim>\<open>_\<close> of the search text are always matched
  literally. The search text \<^verbatim>\<open>\_\<close> gives the pattern \<^verbatim>\<open>%\\_%\<close>: the backslash of the input is
  not escaped, so it pairs with the backslash put before \<^verbatim>\<open>_\<close>, and \<^verbatim>\<open>_\<close> is left as
  a wildcard. The item whose notes read \<^verbatim>\<open>a\b\<close> is returned, although none of its columns
  contains \<^verbatim>\<open>\_\<close>.
\<close>

theorem backslash_leaves_wildcard:
  "qRaw backslash_underscore = [backslash, CHR ''_''] \<and>
   qPattern backslash_underscore = Some [CHR ''%'', backslash, backslash, CHR ''_'', CHR ''%''] \<and>
   items_search noted_shop backslash_underscore = (200, Inr [(noted, 1)]) \<and>
   \<not> spec_text_match (inventory_date_out (db_engine noted_shop)) (qRaw backslash_underscore) noted"
  by code_simp

section \<open>Scan session: answering the confirmation dialog\<close>

text \<open>Answering no clears the pending removal and posts nothing; the store is untouched.\<close>

lemma modal_no:
  "ConfirmRemoveModal toISO handler No form st d now = (st\<lparr>confirmRemove := None\<rparr>, d, [])"
  by (simp add: ConfirmRemoveModal_def onCancel_def)

text \<open>
  Answering yes posts one confirm request, unless the date text is no date; what the
  request carries depends on the revision.
\<close>

lemma modal_yes_part_001:
  assumes "confirmRemove st = Some (item, n)" and "yes_payload toISO form = Some extra"
  shows "snd (snd (ConfirmRemoveModal toISO onConfirm_part_001 Yes form st d now)) =
     [\<lparr>cb_barcode = Some (ii_ScannedCode item), cb_order_id = x_order_id extra,
       cb_where_bought_from = x_where_bought_from extra,
       cb_date_subtracted = x_date_subtracted extra\<rparr>]"
  using assms
  by (simp add: ConfirmRemoveModal_def onConfirm_part_001_def Let_def case_prod_beta)

lemma modal_yes_app:
  assumes "confirmRemove st = Some (item, n)" and "yes_payload toISO form = Some extra"
  shows "snd (snd (ConfirmRemoveModal toISO onConfirm Yes form st d now)) =
     [\<lparr>cb_barcode = Some (ii_ScannedCode item), cb_order_id = None,
       cb_where_bought_from = None, cb_date_subtracted = None\<rparr>]"
  using assms
  by (simp add: ConfirmRemoveModal_def onConfirm_def Let_def case_prod_beta)

text \<open>
  C8. The claim asks that answering yes passes the operator's metadata on to confirm.
  With the dialog open on \<open>widget\<close> and the form filled in (order \<^verbatim>\<open>SO-12345\<close>, source
  \<^verbatim>\<open>Website\<close>, a date; browser in UTC), the dialog hands the metadata to \<^verbatim>\<open>onConfirm\<close>, but the handler of
  \<^verbatim>\<open>App.tsx\<close> posts the barcode alone, and the event the server logs has no order
  reference, no source and the server's own time. The handler of the other revision
  posts all three.
\<close>

theorem confirm_dialog_drops_metadata:
  "yes_payload utc_toISOString filled_form =
     Some \<lparr>x_order_id = Some ''SO-12345'', x_where_bought_from = Some ''Website'',
           x_date_subtracted = Some ''2025-06-01T10:00:00.000Z''\<rparr> \<and>
   snd (snd (ConfirmRemoveModal utc_toISOString onConfirm Yes filled_form confirming (shop 3)
               ''2025-06-01T12:05:00.000Z'')) =
     [\<lparr>cb_barcode = Some ''X1'', cb_order_id = None, cb_where_bought_from = None,
       cb_date_subtracted = None\<rparr>] \<and>
   inventory_events (fst (snd (ConfirmRemoveModal utc_toISOString onConfirm Yes filled_form confirming (shop 3)
               ''2025-06-01T12:05:00.000Z''))) =
     [\<lparr>ev_item_id = 0, ev_action = ActRemove, ev_qty = 1, ev_order_id = None,
       ev_where_bought_from = None, ev_date_subtracted = Some ''2025-06-01T12:05:00.000Z''\<rparr>] \<and>
   snd (snd (ConfirmRemoveModal utc_toISOString onConfirm_part_001 Yes filled_form confirming (shop 3)
               ''2025-06-01T12:05:00.000Z'')) =
     [\<lparr>cb_barcode = Some ''X1'', cb_order_id = Some ''SO-12345'',
       cb_where_bought_from = Some ''Website'',
       cb_date_subtracted = Some ''2025-06-01T10:00:00.000Z''\<rparr>] \<and>
   ConfirmRemoveModal utc_toISOString onConfirm No filled_form confirming (shop 3) ''2025-06-01T12:05:00.000Z'' =
     (confirming\<lparr>confirmRemove := None\<rparr>, shop 3, [])"
proof -
  have yes: "yes_payload utc_toISOString filled_form =
     Some \<lparr>x_order_id = Some ''SO-12345'', x_where_bought_from = Some ''Website'',
           x_date_subtracted = Some ''2025-06-01T10:00:00.000Z''\<rparr> \<and>
   snd (snd (ConfirmRemoveModal utc_toISOString onConfirm Yes filled_form confirming (shop 3)
               ''2025-06-01T12:05:00.000Z'')) =
     [\<lparr>cb_barcode = Some ''X1'', cb_order_id = None, cb_where_bought_from = None,
       cb_date_subtracted = None\<rparr>] \<and>
   inventory_events (fst (snd (ConfirmRemoveModal utc_toISOString onConfirm Yes filled_form confirming (shop 3)
               ''2025-06-01T12:05:00.000Z''))) =
     [\<lparr>ev_item_id = 0, ev_action = ActRemove, ev_qty = 1, ev_order_id = None,
       ev_where_bought_from = None, ev_date_subtracted = Some ''2025-06-01T12:05:00.000Z''\<rparr>] \<and>
   snd (snd (ConfirmRemoveModal utc_toISOString onConfirm_part_001 Yes filled_form confirming (shop 3)
               ''2025-06-01T12:05:00.000Z'')) =
     [\<lparr>cb_barcode = Some ''X1'', cb_order_id = Some ''SO-12345'',
       cb_where_bought_from = Some ''Website'',
       cb_date_subtracted = Some ''2025-06-01T10:00:00.000Z''\<rparr>]"
    by code_simp
  have no: "ConfirmRemoveModal utc_toISOString onConfirm No filled_form confirming (shop 3)
      ''2025-06-01T12:05:00.000Z'' = (confirming\<lparr>confirmRemove := None\<rparr>, shop 3, [])"
    by (rule modal_no)
  from yes no show ?thesis by (simp only: simp_thms)
qed

end
